theory Spec2Isabelle
  imports Complex_Main
begin

section \<open>Errors\<close>

text \<open>
  Every exception the modules can raise is a value.  \<open>AssertionError\<close> is the
  \<^verbatim>\<open>assert\<close> of \<^verbatim>\<open>MultiHeadAttention.__init__\<close>, \<open>AttributeError\<close> a read of a module
  attribute that was never set, \<open>ZeroDivisionError\<close> a Python division by zero,
  \<open>RuntimeError\<close> a shape error of torch, \<open>EinopsError\<close> a pattern of
  \<^verbatim>\<open>einops.rearrange\<close> that does not fit its input, \<open>IndexError\<close> an index out of range
  and \<open>ValueError\<close> a rejected constructor argument.
\<close>

datatype error =
  AssertionError | AttributeError | ZeroDivisionError | RuntimeError
  | EinopsError | IndexError | ValueError

fun bindE :: "error + 'a \<Rightarrow> ('a \<Rightarrow> error + 'b) \<Rightarrow> error + 'b" where
  "bindE (Inl e) f = Inl e"
| "bindE (Inr v) f = f v"

section \<open>Tensors\<close>

text \<open>
  A tensor is its shape together with its elements, read by a list of indices (one per
  axis).  Only the elements at indices inside the shape are meaningful.  Floating-point
  elements are real numbers: rounding is not modelled.
\<close>

record 'a tensor =
  shape :: "nat list"
  el :: "nat list \<Rightarrow> 'a"

text \<open>All indices of a shape, in row-major order.\<close>

fun indices :: "nat list \<Rightarrow> nat list list" where
  "indices [] = [[]]"
| "indices (n # ns) = concat (map (\<lambda>i. map ((#) i) (indices ns)) [0..<n])"

text \<open>
  Broadcasting, as torch does it: the shapes are aligned at their last axis, an axis of
  size 1 is stretched, a missing leading axis is added, and any other mismatch is an
  error.  \<open>broadcast_rev\<close> works on the reversed shapes.
\<close>

fun broadcast_rev :: "nat list \<Rightarrow> nat list \<Rightarrow> nat list option" where
  "broadcast_rev [] ys = Some ys"
| "broadcast_rev (x # xs) [] = Some (x # xs)"
| "broadcast_rev (x # xs) (y # ys) =
     (if x = y \<or> y = 1 then map_option ((#) x) (broadcast_rev xs ys)
      else if x = 1 then map_option ((#) y) (broadcast_rev xs ys)
      else None)"

definition broadcast_shapes :: "nat list \<Rightarrow> nat list \<Rightarrow> nat list option" where
  "broadcast_shapes a b = map_option rev (broadcast_rev (rev a) (rev b))"

text \<open>
  The index at which an operand of shape \<open>shp\<close> is read for the index \<open>idx\<close> of the
  broadcast result: the trailing axes of \<open>idx\<close>, with 0 on every stretched axis.
\<close>

definition bindex :: "nat list \<Rightarrow> nat list \<Rightarrow> nat list" where
  "bindex shp idx =
     map2 (\<lambda>n i. if n = 1 then 0 else i) shp (drop (length idx - length shp) idx)"

definition full :: "nat list \<Rightarrow> 'a \<Rightarrow> 'a tensor" where
  "full shp v = \<lparr>shape = shp, el = (\<lambda>idx. v)\<rparr>"

definition arange :: "nat \<Rightarrow> real tensor" where
  "arange n = \<lparr>shape = [n], el = (\<lambda>idx. case idx of [i] \<Rightarrow> real i | _ \<Rightarrow> 0)\<rparr>"

definition tensor_map :: "('a \<Rightarrow> 'b) \<Rightarrow> 'a tensor \<Rightarrow> 'b tensor" where
  "tensor_map f t = \<lparr>shape = shape t, el = (\<lambda>idx. f (el t idx))\<rparr>"

definition reindex :: "nat list \<Rightarrow> (nat list \<Rightarrow> nat list) \<Rightarrow> 'a tensor \<Rightarrow> 'a tensor" where
  "reindex shp g t = \<lparr>shape = shp, el = (\<lambda>idx. el t (g idx))\<rparr>"

definition broadcast_map ::
  "('a \<Rightarrow> 'b \<Rightarrow> 'c) \<Rightarrow> nat list \<Rightarrow> 'a tensor \<Rightarrow> 'b tensor \<Rightarrow> 'c tensor" where
  "broadcast_map f s a b =
     \<lparr>shape = s,
      el = (\<lambda>idx. f (el a (bindex (shape a) idx)) (el b (bindex (shape b) idx)))\<rparr>"

text \<open>An elementwise operation of two tensors (\<^verbatim>\<open>a / b\<close>, \<^verbatim>\<open>a + b\<close>).\<close>

definition tensor_binop ::
  "('a \<Rightarrow> 'b \<Rightarrow> 'c) \<Rightarrow> 'a tensor \<Rightarrow> 'b tensor \<Rightarrow> error + 'c tensor" where
  "tensor_binop f a b =
     (case broadcast_shapes (shape a) (shape b) of
        None \<Rightarrow> Inl RuntimeError
      | Some s \<Rightarrow> Inr (broadcast_map f s a b))"

text \<open>
  \<^verbatim>\<open>t.masked_fill(mask, value)\<close>: the elements where the boolean mask holds are replaced
  by the value; mask and tensor are broadcast against each other.
\<close>

definition masked_fill :: "'a tensor \<Rightarrow> bool tensor \<Rightarrow> 'a \<Rightarrow> error + 'a tensor" where
  "masked_fill t msk v = tensor_binop (\<lambda>x m. if m then v else x) t msk"

text \<open>\<^verbatim>\<open>torch.zeros(*sizes)\<close> and \<^verbatim>\<open>torch.ones(*sizes)\<close> reject a negative size.\<close>

definition torch_zeros :: "int list \<Rightarrow> error + real tensor" where
  "torch_zeros sizes =
     (if list_ex (\<lambda>n. n < 0) sizes then Inl RuntimeError
      else Inr (full (map nat sizes) 0))"

definition torch_ones :: "int list \<Rightarrow> error + real tensor" where
  "torch_ones sizes =
     (if list_ex (\<lambda>n. n < 0) sizes then Inl RuntimeError
      else Inr (full (map nat sizes) 1))"

text \<open>\<^verbatim>\<open>torch.arange(n)\<close>: the integers \<open>0, ..., n - 1\<close>.\<close>

definition torch_arange :: "int \<Rightarrow> error + real tensor" where
  "torch_arange n = (if n < 0 then Inl RuntimeError else Inr (arange (nat n)))"

text \<open>
  \<^verbatim>\<open>torch.triu(t, diagonal=k)\<close> of a matrix keeps the elements on and above the \<open>k\<close>-th
  diagonal and zeroes the others.
\<close>

definition triu :: "real tensor \<Rightarrow> int \<Rightarrow> real tensor" where
  "triu t k =
     \<lparr>shape = shape t,
      el = (\<lambda>idx. if k \<le> int (last idx) - int (last (butlast idx)) then el t idx else 0)\<rparr>"

definition torch_triu :: "real tensor \<Rightarrow> int \<Rightarrow> error + real tensor" where
  "torch_triu t k = (if length (shape t) < 2 then Inl RuntimeError else Inr (triu t k))"

subsection \<open>Slices\<close>

text \<open>
  \<^verbatim>\<open>t[:, start::step]\<close> of a matrix, and the assignment \<^verbatim>\<open>t[:, start::step] = v\<close>, which
  broadcasts \<open>v\<close> to the slice.  The assignment is in place in the source; here it
  returns the updated matrix.
\<close>

definition slice_cols :: "nat \<Rightarrow> nat \<Rightarrow> 'a tensor \<Rightarrow> 'a tensor" where
  "slice_cols start step t =
     \<lparr>shape = [shape t ! 0, (shape t ! 1 - start + step - 1) div step],
      el = (\<lambda>idx. case idx of [i, k] \<Rightarrow> el t [i, start + k * step] | _ \<Rightarrow> el t idx)\<rparr>"

definition getitem_cols :: "nat \<Rightarrow> nat \<Rightarrow> 'a tensor \<Rightarrow> error + 'a tensor" where
  "getitem_cols start step t =
     (if length (shape t) = 2 then Inr (slice_cols start step t) else Inl IndexError)"

definition assign_cols :: "nat \<Rightarrow> nat \<Rightarrow> 'a tensor \<Rightarrow> 'a tensor \<Rightarrow> 'a tensor" where
  "assign_cols start step t v =
     \<lparr>shape = shape t,
      el = (\<lambda>idx. case idx of
              [i, j] \<Rightarrow>
                if start \<le> j \<and> (j - start) mod step = 0
                then el v (bindex (shape v) [i, (j - start) div step])
                else el t idx
            | _ \<Rightarrow> el t idx)\<rparr>"

definition setitem_cols :: "nat \<Rightarrow> nat \<Rightarrow> 'a tensor \<Rightarrow> 'a tensor \<Rightarrow> error + 'a tensor" where
  "setitem_cols start step t v =
     (if length (shape t) \<noteq> 2 then Inl IndexError
      else if broadcast_shapes (shape (slice_cols start step t)) (shape v)
                = Some (shape (slice_cols start step t))
      then Inr (assign_cols start step t v)
      else Inl RuntimeError)"

text \<open>\<^verbatim>\<open>t[:, :n]\<close>: the first \<open>n\<close> entries along the second axis.\<close>

definition first_rows :: "nat \<Rightarrow> 'a tensor \<Rightarrow> 'a tensor" where
  "first_rows n t =
     \<lparr>shape = hd (shape t) # min n (shape t ! 1) # drop 2 (shape t), el = el t\<rparr>"

definition getitem_rows :: "nat \<Rightarrow> 'a tensor \<Rightarrow> error + 'a tensor" where
  "getitem_rows n t =
     (if length (shape t) < 2 then Inl IndexError else Inr (first_rows n t))"

subsection \<open>The patterns of einops.rearrange that the modules use\<close>

text \<open>\<^verbatim>\<open>'seq_length -> seq_length 1'\<close>\<close>

definition rearrange_n_to_n1 :: "'a tensor \<Rightarrow> error + 'a tensor" where
  "rearrange_n_to_n1 t =
     (case shape t of
        [n] \<Rightarrow> Inr (reindex [n, 1] (\<lambda>idx. [hd idx]) t)
      | _ \<Rightarrow> Inl EinopsError)"

text \<open>\<^verbatim>\<open>'seq_length d_model -> 1 seq_length d_model'\<close>\<close>

definition rearrange_sd_to_1sd :: "'a tensor \<Rightarrow> error + 'a tensor" where
  "rearrange_sd_to_1sd t =
     (case shape t of
        [n, d] \<Rightarrow> Inr (reindex [1, n, d] tl t)
      | _ \<Rightarrow> Inl EinopsError)"

text \<open>\<^verbatim>\<open>'batch seq_len -> batch 1 1 seq_len'\<close>\<close>

definition key_mask :: "'a tensor \<Rightarrow> 'a tensor" where
  "key_mask t = reindex [shape t ! 0, 1, 1, shape t ! 1] (\<lambda>idx. [hd idx, last idx]) t"

definition rearrange_bs_to_b11s :: "'a tensor \<Rightarrow> error + 'a tensor" where
  "rearrange_bs_to_b11s t =
     (if length (shape t) \<noteq> 2 then Inl EinopsError else Inr (key_mask t))"

text \<open>
  \<^verbatim>\<open>'batch seq_len (num_heads head_dim) -> batch num_heads seq_len head_dim'\<close>, with
  both axis lengths given: they must be positive and their product the length of the
  last axis.
\<close>

definition split_heads :: "nat \<Rightarrow> nat \<Rightarrow> 'a tensor \<Rightarrow> 'a tensor" where
  "split_heads num_heads head_dim t =
     reindex [shape t ! 0, num_heads, shape t ! 1, head_dim]
       (\<lambda>idx. case idx of [bi, h, i, c] \<Rightarrow> [bi, i, h * head_dim + c] | _ \<Rightarrow> idx) t"

definition rearrange_split_heads :: "int \<Rightarrow> int \<Rightarrow> 'a tensor \<Rightarrow> error + 'a tensor" where
  "rearrange_split_heads num_heads head_dim t =
     (if length (shape t) \<noteq> 3 \<or> num_heads \<le> 0 \<or> head_dim \<le> 0
         \<or> num_heads * head_dim \<noteq> int (shape t ! 2)
      then Inl EinopsError
      else Inr (split_heads (nat num_heads) (nat head_dim) t))"

text \<open>\<^verbatim>\<open>'batch num_heads seq_len head_dim -> batch num_heads head_dim seq_len'\<close>\<close>

definition swap_last :: "'a tensor \<Rightarrow> 'a tensor" where
  "swap_last t =
     reindex [shape t ! 0, shape t ! 1, shape t ! 3, shape t ! 2]
       (\<lambda>idx. case idx of [bi, hi, c, i] \<Rightarrow> [bi, hi, i, c] | _ \<Rightarrow> idx) t"

definition rearrange_swap_last :: "'a tensor \<Rightarrow> error + 'a tensor" where
  "rearrange_swap_last t =
     (if length (shape t) \<noteq> 4 then Inl EinopsError else Inr (swap_last t))"

text \<open>\<^verbatim>\<open>'batch num_heads seq_len head_dim -> batch seq_len (num_heads head_dim)'\<close>\<close>

definition merge_heads :: "'a tensor \<Rightarrow> 'a tensor" where
  "merge_heads t =
     reindex [shape t ! 0, shape t ! 2, shape t ! 1 * shape t ! 3]
       (\<lambda>idx. case idx of
                 [bi, i, c] \<Rightarrow> [bi, c div shape t ! 3, i, c mod shape t ! 3]
               | _ \<Rightarrow> idx) t"

definition rearrange_merge_heads :: "'a tensor \<Rightarrow> error + 'a tensor" where
  "rearrange_merge_heads t =
     (if length (shape t) \<noteq> 4 then Inl EinopsError else Inr (merge_heads t))"

subsection \<open>Matrix product and softmax\<close>

text \<open>
  \<^verbatim>\<open>torch.matmul\<close> of two tensors of rank 4: the two leading axes are broadcast, the
  last two are multiplied as matrices.  The attention passes no other rank; other ranks
  are not modelled and are rejected here.
\<close>

definition matmul :: "nat list \<Rightarrow> real tensor \<Rightarrow> real tensor \<Rightarrow> real tensor" where
  "matmul batch a b =
     \<lparr>shape = batch @ [shape a ! 2, shape b ! 3],
      el = (\<lambda>idx. (\<Sum>c<shape a ! 3.
                      el a (bindex (take 2 (shape a)) (take 2 idx) @ [idx ! 2, c])
                    * el b (bindex (take 2 (shape b)) (take 2 idx) @ [c, idx ! 3])))\<rparr>"

definition torch_matmul :: "real tensor \<Rightarrow> real tensor \<Rightarrow> error + real tensor" where
  "torch_matmul a b =
     (if length (shape a) \<noteq> 4 \<or> length (shape b) \<noteq> 4 then Inl RuntimeError
      else
        case broadcast_shapes (take 2 (shape a)) (take 2 (shape b)) of
          None \<Rightarrow> Inl RuntimeError
        | Some batch \<Rightarrow>
            if shape a ! 3 \<noteq> shape b ! 2 then Inl RuntimeError
            else Inr (matmul batch a b))"

text \<open>\<^verbatim>\<open>F.softmax(t, dim=-1)\<close>: each row along the last axis is normalised.\<close>

definition softmax_last :: "real tensor \<Rightarrow> real tensor" where
  "softmax_last t =
     \<lparr>shape = shape t,
      el = (\<lambda>idx. exp (el t idx) / (\<Sum>j<last (shape t). exp (el t (butlast idx @ [j]))))\<rparr>"

section \<open>PositionalEncoding\<close>

record PositionalEncoding =
  pe_seq_length :: int
  pe_d_model :: int
  pe :: "real tensor"

text \<open>
  \<^verbatim>\<open>_reset_parameters\<close>, statement by statement.  \<^verbatim>\<open>2 / self.d_model\<close> is a division of
  Python numbers and raises for \<^verbatim>\<open>d_model = 0\<close>.  The result is the buffer \<^verbatim>\<open>pe\<close>.
\<close>

definition PositionalEncoding_reset_parameters :: "int \<Rightarrow> int \<Rightarrow> error + real tensor" where
  "PositionalEncoding_reset_parameters seq_length d_model =
     bindE (torch_zeros [seq_length, d_model]) (\<lambda>pe0.
     bindE (torch_arange seq_length) (\<lambda>ar.
     bindE (rearrange_n_to_n1 ar) (\<lambda>positions.
     bindE (torch_arange d_model) (\<lambda>dims0.
     if d_model = 0 then Inl ZeroDivisionError
     else
       bindE (Inr (tensor_map (\<lambda>v. 10000 powr v)
                    (tensor_map (\<lambda>v. (2 / real_of_int d_model) * v) dims0))) (\<lambda>dims.
       bindE (tensor_binop (/) positions dims) (\<lambda>sinusoidal_args.
       bindE (Inr (tensor_map sin sinusoidal_args)) (\<lambda>pe_sin.
       bindE (Inr (tensor_map cos sinusoidal_args)) (\<lambda>pe_cos.
       bindE (getitem_cols 0 2 pe_sin) (\<lambda>sin_even.
       bindE (setitem_cols 0 2 pe0 sin_even) (\<lambda>pe1.
       bindE (getitem_cols 1 2 pe_cos) (\<lambda>cos_odd.
       bindE (setitem_cols 1 2 pe1 cos_odd) (\<lambda>pe2.
       rearrange_sd_to_1sd pe2))))))))))))"

definition PositionalEncoding_init :: "int \<Rightarrow> int \<Rightarrow> error + PositionalEncoding" where
  "PositionalEncoding_init seq_length d_model =
     bindE (PositionalEncoding_reset_parameters seq_length d_model) (\<lambda>t.
     Inr \<lparr>pe_seq_length = seq_length, pe_d_model = d_model, pe = t\<rparr>)"

text \<open>\<^verbatim>\<open>forward\<close>: \<^verbatim>\<open>self.pe[:, :x.size(1)]\<close>; \<^verbatim>\<open>x.size(1)\<close> needs a second axis.\<close>

definition PositionalEncoding_forward ::
  "PositionalEncoding \<Rightarrow> 'a tensor \<Rightarrow> error + real tensor" where
  "PositionalEncoding_forward m x =
     (if length (shape x) < 2 then Inl IndexError
      else getitem_rows (shape x ! 1) (pe m))"

section \<open>The layers of torch.nn that the modules use\<close>

text \<open>
  Random initial values are arguments: \<open>rnd name\<close> is the tensor of values drawn for the
  parameter called \<open>name\<close>.
\<close>

record Linear =
  in_features :: nat
  out_features :: nat
  weight :: "real tensor"
  bias :: "real tensor"

definition nn_Linear ::
  "int \<Rightarrow> int \<Rightarrow> (nat list \<Rightarrow> real) \<Rightarrow> (nat list \<Rightarrow> real) \<Rightarrow> error + Linear" where
  "nn_Linear n_in n_out w_draw b_draw =
     (if n_in < 0 \<or> n_out < 0 then Inl RuntimeError
      else Inr \<lparr>in_features = nat n_in, out_features = nat n_out,
                weight = \<lparr>shape = [nat n_out, nat n_in], el = w_draw\<rparr>,
                bias = \<lparr>shape = [nat n_out], el = b_draw\<rparr>\<rparr>)"

text \<open>
  \<^verbatim>\<open>Linear.forward\<close>: \<open>y = x W\<^sup>T + b\<close> along the last axis of \<open>x\<close>, which must
  have as many entries as the weight matrix has columns.  (The bias of a module built by
  \<^verbatim>\<open>nn.Linear\<close> has one entry per row of the weight; no other bias is accepted here.)
\<close>

definition linear :: "Linear \<Rightarrow> real tensor \<Rightarrow> real tensor" where
  "linear m x =
     \<lparr>shape = butlast (shape x) @ [shape (weight m) ! 0],
      el = (\<lambda>idx. (\<Sum>k<shape (weight m) ! 1.
                      el x (butlast idx @ [k]) * el (weight m) [last idx, k])
                  + el (bias m) [last idx])\<rparr>"

definition Linear_forward :: "Linear \<Rightarrow> real tensor \<Rightarrow> error + real tensor" where
  "Linear_forward m x =
     (if length (shape (weight m)) \<noteq> 2 \<or> shape x = []
         \<or> last (shape x) \<noteq> shape (weight m) ! 1
         \<or> shape (bias m) \<noteq> [shape (weight m) ! 0]
      then Inl RuntimeError
      else Inr (linear m x))"

text \<open>
  \<^verbatim>\<open>nn.init.xavier_uniform_\<close> computes \<^verbatim>\<open>math.sqrt(2.0 / float(fan_in + fan_out))\<close>
  before it draws, so a tensor with no fan raises; a tensor of rank below 2 is
  rejected.
\<close>

definition xavier_uniform :: "real tensor \<Rightarrow> (nat list \<Rightarrow> real) \<Rightarrow> error + real tensor" where
  "xavier_uniform w draw =
     (if length (shape w) < 2 then Inl ValueError
      else if (shape w ! 1 + shape w ! 0) * prod_list (drop 2 (shape w)) = 0
      then Inl ZeroDivisionError
      else Inr \<lparr>shape = shape w, el = draw\<rparr>)"

record LayerNorm =
  normalized_shape :: nat
  ln_eps :: real
  ln_weight :: "real tensor"
  ln_bias :: "real tensor"

definition nn_LayerNorm :: "int \<Rightarrow> error + LayerNorm" where
  "nn_LayerNorm d =
     (if d < 0 then Inl RuntimeError
      else Inr \<lparr>normalized_shape = nat d, ln_eps = 1 / 100000,
                ln_weight = full [nat d] 1, ln_bias = full [nat d] 0\<rparr>)"

definition row_mean :: "real tensor \<Rightarrow> nat list \<Rightarrow> real" where
  "row_mean x idx =
     (\<Sum>j<last (shape x). el x (butlast idx @ [j])) / real (last (shape x))"

definition row_var :: "real tensor \<Rightarrow> nat list \<Rightarrow> real" where
  "row_var x idx =
     (\<Sum>j<last (shape x). (el x (butlast idx @ [j]) - row_mean x idx)\<^sup>2)
       / real (last (shape x))"

definition layer_norm :: "LayerNorm \<Rightarrow> real tensor \<Rightarrow> real tensor" where
  "layer_norm m x =
     \<lparr>shape = shape x,
      el = (\<lambda>idx. (el x idx - row_mean x idx) / sqrt (row_var x idx + ln_eps m)
                    * el (ln_weight m) [last idx]
                  + el (ln_bias m) [last idx])\<rparr>"

definition LayerNorm_forward :: "LayerNorm \<Rightarrow> real tensor \<Rightarrow> error + real tensor" where
  "LayerNorm_forward m x =
     (if shape x = [] \<or> last (shape x) \<noteq> normalized_shape m then Inl RuntimeError
      else Inr (layer_norm m x))"

record Dropout =
  drop_p :: real

definition nn_Dropout :: "real \<Rightarrow> error + Dropout" where
  "nn_Dropout p = (if p < 0 \<or> 1 < p then Inl ValueError else Inr \<lparr>drop_p = p\<rparr>)"

text \<open>
  \<^verbatim>\<open>Dropout.forward\<close>.  In evaluation mode it is the identity.  In training mode the
  elements that the random draw \<open>keep\<close> does not keep are zeroed and the others are
  scaled by \<open>1 / (1 - p)\<close>; the draw is an argument.
\<close>

definition dropped :: "real \<Rightarrow> (nat list \<Rightarrow> bool) \<Rightarrow> real tensor \<Rightarrow> real tensor" where
  "dropped p keep x =
     \<lparr>shape = shape x, el = (\<lambda>idx. if keep idx then el x idx / (1 - p) else 0)\<rparr>"

definition Dropout_forward ::
  "Dropout \<Rightarrow> bool \<Rightarrow> (nat list \<Rightarrow> bool) \<Rightarrow> real tensor \<Rightarrow> real tensor" where
  "Dropout_forward m training keep x = (if training then dropped (drop_p m) keep x else x)"

definition ReLU_forward :: "real tensor \<Rightarrow> real tensor" where
  "ReLU_forward x = tensor_map (max 0) x"

text \<open>
  \<^verbatim>\<open>nn.Sequential\<close>: the layers are applied in order.  \<open>keeps k\<close> is the draw of the
  layer at position \<open>k\<close> when it is a dropout.
\<close>

datatype layer = LinearL Linear | DropoutL Dropout | ReLUL

fun layer_forward :: "layer \<Rightarrow> bool \<Rightarrow> (nat list \<Rightarrow> bool) \<Rightarrow> real tensor \<Rightarrow> error + real tensor" where
  "layer_forward (LinearL m) training keep x = Linear_forward m x"
| "layer_forward (DropoutL m) training keep x = Inr (Dropout_forward m training keep x)"
| "layer_forward ReLUL training keep x = Inr (ReLU_forward x)"

fun Sequential_forward ::
  "layer list \<Rightarrow> bool \<Rightarrow> (nat \<Rightarrow> nat list \<Rightarrow> bool) \<Rightarrow> nat \<Rightarrow> real tensor \<Rightarrow> error + real tensor" where
  "Sequential_forward [] training keeps k x = Inr x"
| "Sequential_forward (l # ls) training keeps k x =
     bindE (layer_forward l training (keeps k) x)
       (Sequential_forward ls training keeps (Suc k))"

section \<open>MultiHeadAttention\<close>

record MultiHeadAttention =
  mha_num_heads :: int
  mha_d_head :: int
  w_q :: Linear
  w_k :: Linear
  w_v :: Linear
  w_out :: Linear

text \<open>One projection of \<^verbatim>\<open>_reset_parameters\<close>: Xavier weights, zero bias.\<close>

definition reset_linear :: "Linear \<Rightarrow> (nat list \<Rightarrow> real) \<Rightarrow> error + Linear" where
  "reset_linear m draw =
     bindE (xavier_uniform (weight m) draw) (\<lambda>w.
     Inr (m\<lparr>weight := w, bias := full (shape (bias m)) 0\<rparr>))"

definition MultiHeadAttention_reset_parameters ::
  "MultiHeadAttention \<Rightarrow> (string \<Rightarrow> nat list \<Rightarrow> real) \<Rightarrow> error + MultiHeadAttention" where
  "MultiHeadAttention_reset_parameters m rnd =
     bindE (reset_linear (w_q m) (rnd ''xavier.w_q'')) (\<lambda>q.
     bindE (reset_linear (w_k m) (rnd ''xavier.w_k'')) (\<lambda>k.
     bindE (reset_linear (w_v m) (rnd ''xavier.w_v'')) (\<lambda>v.
     bindE (reset_linear (w_out m) (rnd ''xavier.w_out'')) (\<lambda>out.
     Inr (m\<lparr>w_q := q, w_k := k, w_v := v, w_out := out\<rparr>)))))"

text \<open>
  \<^verbatim>\<open>__init__\<close>.  \<^verbatim>\<open>d_model % num_heads\<close> raises for \<^verbatim>\<open>num_heads = 0\<close>; Python's \<^verbatim>\<open>%\<close>
  on integers is \<open>mod\<close> on \<open>int\<close> (the sign of the divisor).  After the assertion
  \<^verbatim>\<open>int(d_model / num_heads)\<close> is the exact quotient.
\<close>

definition MultiHeadAttention_init ::
  "int \<Rightarrow> int \<Rightarrow> (string \<Rightarrow> nat list \<Rightarrow> real) \<Rightarrow> error + MultiHeadAttention" where
  "MultiHeadAttention_init num_heads d_model rnd =
     (if num_heads = 0 then Inl ZeroDivisionError
      else if d_model mod num_heads \<noteq> 0 then Inl AssertionError
      else
        bindE (nn_Linear d_model d_model (rnd ''w_q.weight'') (rnd ''w_q.bias'')) (\<lambda>q.
        bindE (nn_Linear d_model d_model (rnd ''w_k.weight'') (rnd ''w_k.bias'')) (\<lambda>k.
        bindE (nn_Linear d_model d_model (rnd ''w_v.weight'') (rnd ''w_v.bias'')) (\<lambda>v.
        bindE (nn_Linear d_model d_model (rnd ''w_out.weight'') (rnd ''w_out.bias'')) (\<lambda>out.
        MultiHeadAttention_reset_parameters
          \<lparr>mha_num_heads = num_heads, mha_d_head = d_model div num_heads,
           w_q = q, w_k = k, w_v = v, w_out = out\<rparr> rnd)))))"

text \<open>
  The element type of the logits decides the fill value of \<^verbatim>\<open>_apply_mask\<close>; it is an
  argument of the forward pass.
\<close>

datatype dtype = Float16 | BFloat16 | Float32 | Float64

definition large_neg_value :: "dtype \<Rightarrow> real" where
  "large_neg_value dt = (if dt = Float32 then - 9000000000000000 else - 10000)"

definition apply_mask ::
  "dtype \<Rightarrow> real tensor \<Rightarrow> ('m::zero) tensor option \<Rightarrow> real tensor option \<Rightarrow> error + real tensor" where
  "apply_mask dt attention_logits padding_mask causal_mask =
     bindE (case padding_mask of
              None \<Rightarrow> Inr attention_logits
            | Some pm \<Rightarrow>
                bindE (rearrange_bs_to_b11s pm) (\<lambda>pm'.
                masked_fill attention_logits (tensor_map (\<lambda>v. v = 0) pm')
                  (large_neg_value dt))) (\<lambda>logits1.
     case causal_mask of
       None \<Rightarrow> Inr logits1
     | Some cm \<Rightarrow> masked_fill logits1 (tensor_map (\<lambda>v. v = 0) cm) (large_neg_value dt))"

text \<open>
  The first part of \<^verbatim>\<open>forward\<close>, up to the raw logits: the three projections, the
  split into heads, and \<^verbatim>\<open>torch.matmul(q_proj, k_proj) / math.sqrt(q_proj.size()[-1])\<close>.
  It returns the logits and the value projection.
\<close>

definition attention_logits_of ::
  "MultiHeadAttention \<Rightarrow> real tensor \<Rightarrow> real tensor option \<Rightarrow> error + (real tensor \<times> real tensor)" where
  "attention_logits_of m query val =
     bindE (Linear_forward (w_q m) query) (\<lambda>q0.
     bindE (Inr (case val of None \<Rightarrow> query | Some v \<Rightarrow> v)) (\<lambda>val'.
     bindE (Linear_forward (w_k m) val') (\<lambda>k0.
     bindE (Linear_forward (w_v m) val') (\<lambda>v0.
     bindE (rearrange_split_heads (mha_num_heads m) (mha_d_head m) q0) (\<lambda>q_proj.
     bindE (rearrange_split_heads (mha_num_heads m) (mha_d_head m) k0) (\<lambda>k1.
     bindE (rearrange_swap_last k1) (\<lambda>k_proj.
     bindE (rearrange_split_heads (mha_num_heads m) (mha_d_head m) v0) (\<lambda>v_proj.
     bindE (torch_matmul q_proj k_proj) (\<lambda>qk.
     Inr (tensor_map (\<lambda>v. v / sqrt (real (last (shape q_proj)))) qk, v_proj))))))))))"

text \<open>\<^verbatim>\<open>forward\<close>: the pair of the output and the attention weights.\<close>

definition MultiHeadAttention_forward ::
  "MultiHeadAttention \<Rightarrow> dtype \<Rightarrow> real tensor \<Rightarrow> real tensor option \<Rightarrow>
   ('m::zero) tensor option \<Rightarrow> real tensor option \<Rightarrow> error + (real tensor \<times> real tensor)" where
  "MultiHeadAttention_forward m dt query val padding_mask causal_mask =
     bindE (attention_logits_of m query val) (\<lambda>(logits, v_proj).
     bindE (apply_mask dt logits padding_mask causal_mask) (\<lambda>attention_logits.
     bindE (Inr (softmax_last attention_logits)) (\<lambda>weights.
     bindE (torch_matmul weights v_proj) (\<lambda>out0.
     bindE (rearrange_merge_heads out0) (\<lambda>out1.
     bindE (Linear_forward (w_out m) out1) (\<lambda>output.
     Inr (output, weights)))))))"

section \<open>EncoderBlock\<close>

record EncoderBlock =
  multi_head_attention :: MultiHeadAttention
  norm1 :: LayerNorm
  dropout1 :: Dropout
  pff :: "layer list"
  norm2 :: LayerNorm
  dropout2 :: Dropout

definition EncoderBlock_init ::
  "int \<Rightarrow> int \<Rightarrow> int \<Rightarrow> real \<Rightarrow> (string \<Rightarrow> nat list \<Rightarrow> real) \<Rightarrow> error + EncoderBlock" where
  "EncoderBlock_init d_model num_heads d_ff dropout rnd =
     bindE (MultiHeadAttention_init num_heads d_model rnd) (\<lambda>mha.
     bindE (nn_LayerNorm d_model) (\<lambda>n1.
     bindE (nn_Dropout dropout) (\<lambda>d1.
     bindE (nn_Linear d_model d_ff (rnd ''pff.0.weight'') (rnd ''pff.0.bias'')) (\<lambda>l1.
     bindE (nn_Dropout dropout) (\<lambda>dp.
     bindE (nn_Linear d_ff d_model (rnd ''pff.3.weight'') (rnd ''pff.3.bias'')) (\<lambda>l2.
     bindE (nn_LayerNorm d_model) (\<lambda>n2.
     bindE (nn_Dropout dropout) (\<lambda>d2.
     Inr \<lparr>multi_head_attention = mha, norm1 = n1, dropout1 = d1,
          pff = [LinearL l1, DropoutL dp, ReLUL, LinearL l2],
          norm2 = n2, dropout2 = d2\<rparr>))))))))"

text \<open>
  The draws of the three dropouts of one block: of \<^verbatim>\<open>dropout1\<close>, of the layers of
  \<^verbatim>\<open>pff\<close> by position, and of \<^verbatim>\<open>dropout2\<close>.
\<close>

record block_draws =
  draw1 :: "nat list \<Rightarrow> bool"
  draw_pff :: "nat \<Rightarrow> nat list \<Rightarrow> bool"
  draw2 :: "nat list \<Rightarrow> bool"

definition EncoderBlock_forward ::
  "EncoderBlock \<Rightarrow> bool \<Rightarrow> block_draws \<Rightarrow> dtype \<Rightarrow> real tensor \<Rightarrow>
   real tensor option \<Rightarrow> ('m::zero) tensor option \<Rightarrow> error + real tensor" where
  "EncoderBlock_forward blk training draws dt x causal_mask msk =
     bindE (MultiHeadAttention_forward (multi_head_attention blk) dt x None msk causal_mask)
       (\<lambda>(attended_x, _).
     bindE (tensor_binop (+) x
              (Dropout_forward (dropout1 blk) training (draw1 draws) attended_x)) (\<lambda>x1.
     bindE (LayerNorm_forward (norm1 blk) x1) (\<lambda>x2.
     bindE (Sequential_forward (pff blk) training (draw_pff draws) 0 x2) (\<lambda>pff_x.
     bindE (tensor_binop (+) x2
              (Dropout_forward (dropout2 blk) training (draw2 draws) pff_x)) (\<lambda>x3.
     LayerNorm_forward (norm2 blk) x3)))))"

section \<open>Encoder\<close>

text \<open>
  \<open>causal_mask_tensor\<close> is \<open>None\<close> when the buffer was never registered: a read of
  the attribute then raises.
\<close>

record Encoder =
  encoders :: "EncoderBlock list"
  enc_causal_mask :: bool
  enc_seq_len :: int
  causal_mask_tensor :: "real tensor option"

fun build_blocks ::
  "nat list \<Rightarrow> int \<Rightarrow> int \<Rightarrow> real \<Rightarrow> (nat \<Rightarrow> string \<Rightarrow> nat list \<Rightarrow> real) \<Rightarrow>
   error + EncoderBlock list" where
  "build_blocks [] d_model num_heads dropout rnd = Inr []"
| "build_blocks (l # ls) d_model num_heads dropout rnd =
     bindE (EncoderBlock_init d_model num_heads (2 * d_model) dropout (rnd l)) (\<lambda>b.
     bindE (build_blocks ls d_model num_heads dropout rnd) (\<lambda>bs.
     Inr (b # bs)))"

definition Encoder_init ::
  "int \<Rightarrow> int \<Rightarrow> int \<Rightarrow> real \<Rightarrow> int \<Rightarrow> bool \<Rightarrow> (nat \<Rightarrow> string \<Rightarrow> nat list \<Rightarrow> real) \<Rightarrow>
   error + Encoder" where
  "Encoder_init num_layers num_heads d_model dropout seq_len causal rnd =
     bindE (build_blocks [0..<nat num_layers] d_model num_heads dropout rnd) (\<lambda>blocks.
     if causal
     then
       bindE (torch_ones [seq_len, seq_len]) (\<lambda>ones.
       bindE (torch_triu ones 1) (\<lambda>upper.
       Inr \<lparr>encoders = blocks, enc_causal_mask = causal, enc_seq_len = seq_len,
            causal_mask_tensor = Some (tensor_map (\<lambda>v. 1 - v) upper)\<rparr>))
     else
       Inr \<lparr>encoders = blocks, enc_causal_mask = causal, enc_seq_len = seq_len,
            causal_mask_tensor = None\<rparr>)"

text \<open>
  The loop of \<^verbatim>\<open>forward\<close>.  Each iteration reads \<^verbatim>\<open>self.causal_mask_tensor\<close> before it
  calls the block; \<open>draws l\<close> are the dropout draws of the block at position \<open>l\<close>.
\<close>

fun Encoder_loop ::
  "Encoder \<Rightarrow> EncoderBlock list \<Rightarrow> bool \<Rightarrow> (nat \<Rightarrow> block_draws) \<Rightarrow> nat \<Rightarrow> dtype \<Rightarrow>
   ('m::zero) tensor option \<Rightarrow> real tensor \<Rightarrow> error + real tensor" where
  "Encoder_loop enc [] training draws l dt msk x = Inr x"
| "Encoder_loop enc (e # es) training draws l dt msk x =
     (case causal_mask_tensor enc of
        None \<Rightarrow> Inl AttributeError
      | Some cm \<Rightarrow>
          bindE (EncoderBlock_forward e training (draws l) dt x (Some cm) msk)
            (Encoder_loop enc es training draws (Suc l) dt msk))"

definition Encoder_forward ::
  "Encoder \<Rightarrow> bool \<Rightarrow> (nat \<Rightarrow> block_draws) \<Rightarrow> dtype \<Rightarrow> real tensor \<Rightarrow>
   ('m::zero) tensor option \<Rightarrow> error + real tensor" where
  "Encoder_forward enc training draws dt x msk =
     Encoder_loop enc (encoders enc) training draws 0 dt msk x"

section \<open>Embedding\<close>

text \<open>
  \<^verbatim>\<open>nn.Embedding\<close>: the table is drawn at random and, when \<^verbatim>\<open>padding_idx\<close> is given, its
  row \<^verbatim>\<open>padding_idx\<close> is then filled with zeros (an index error on an empty table).
\<close>

record nn_Embedding =
  num_embeddings :: nat
  embedding_dim :: nat
  padding_idx :: "nat option"
  emb_weight :: "real tensor"

definition fill_row_zero :: "nat \<Rightarrow> real tensor \<Rightarrow> real tensor" where
  "fill_row_zero r t =
     \<lparr>shape = shape t, el = (\<lambda>idx. if hd idx = r then 0 else el t idx)\<rparr>"

definition nn_Embedding_init ::
  "int \<Rightarrow> int \<Rightarrow> nat option \<Rightarrow> (nat list \<Rightarrow> real) \<Rightarrow> error + nn_Embedding" where
  "nn_Embedding_init n d pad draw =
     (case pad of
        Some p \<Rightarrow>
          if 0 < p \<and> \<not> int p < n then Inl AssertionError
          else if n < 0 \<or> d < 0 then Inl RuntimeError
          else if \<not> int p < n then Inl IndexError
          else Inr \<lparr>num_embeddings = nat n, embedding_dim = nat d, padding_idx = Some p,
                    emb_weight = fill_row_zero p \<lparr>shape = [nat n, nat d], el = draw\<rparr>\<rparr>
      | None \<Rightarrow>
          if n < 0 \<or> d < 0 then Inl RuntimeError
          else Inr \<lparr>num_embeddings = nat n, embedding_dim = nat d, padding_idx = None,
                    emb_weight = \<lparr>shape = [nat n, nat d], el = draw\<rparr>\<rparr>)"

text \<open>
  The lookup: every id must be a row of the table; the result has one more axis than
  the ids.
\<close>

definition lookup :: "nn_Embedding \<Rightarrow> int tensor \<Rightarrow> real tensor" where
  "lookup m x =
     \<lparr>shape = shape x @ [shape (emb_weight m) ! 1],
      el = (\<lambda>idx. el (emb_weight m) [nat (el x (butlast idx)), last idx])\<rparr>"

definition nn_Embedding_forward :: "nn_Embedding \<Rightarrow> int tensor \<Rightarrow> error + real tensor" where
  "nn_Embedding_forward m x =
     (if length (shape (emb_weight m)) \<noteq> 2 then Inl RuntimeError
      else if list_ex (\<lambda>idx. el x idx < 0 \<or> int (shape (emb_weight m) ! 0) \<le> el x idx)
                (indices (shape x))
      then Inl IndexError
      else Inr (lookup m x))"

record Embedding =
  embeddings :: nn_Embedding
  positional_embeddings :: PositionalEncoding

definition Embedding_init ::
  "int \<Rightarrow> int \<Rightarrow> int \<Rightarrow> bool \<Rightarrow> (nat list \<Rightarrow> real) \<Rightarrow> error + Embedding" where
  "Embedding_init d_model vocab_size seq_length enable_padding draw =
     bindE (if enable_padding then nn_Embedding_init vocab_size d_model (Some 0) draw
            else nn_Embedding_init vocab_size d_model None draw) (\<lambda>e.
     bindE (PositionalEncoding_init seq_length d_model) (\<lambda>p.
     Inr \<lparr>embeddings = e, positional_embeddings = p\<rparr>))"

definition Embedding_forward :: "Embedding \<Rightarrow> int tensor \<Rightarrow> error + real tensor" where
  "Embedding_forward m x =
     bindE (nn_Embedding_forward (embeddings m) x) (\<lambda>e.
     bindE (PositionalEncoding_forward (positional_embeddings m) x) (\<lambda>p.
     tensor_binop (+) e p))"

section \<open>Training the embedding table\<close>

text \<open>
  The gradient of the lookup with respect to the table, as torch computes it: the row
  of an id receives the sum of the incoming gradient over the positions that hold the
  id, and the row \<^verbatim>\<open>padding_idx\<close> receives nothing.  \<open>g\<close> is the gradient of the loss
  with respect to the output of the lookup.
\<close>

definition nn_Embedding_backward :: "nn_Embedding \<Rightarrow> int tensor \<Rightarrow> real tensor \<Rightarrow> real tensor" where
  "nn_Embedding_backward m x g =
     \<lparr>shape = shape (emb_weight m),
      el = (\<lambda>idx. case idx of
              [r, c] \<Rightarrow>
                if padding_idx m = Some r then 0
                else sum_list (map (\<lambda>p. el g (p @ [c]))
                                 (filter (\<lambda>p. el x p = int r) (indices (shape x))))
            | _ \<Rightarrow> 0)\<rparr>"

text \<open>
  The optimizer is outside the repository.  It is taken to work element by element: from
  its state for an element, the element and the element's gradient it computes the new
  state and the new element (gradient descent, with or without momentum and weight
  decay, and Adam are of this form).
\<close>

record 's optimizer =
  opt_init :: 's
  opt_step :: "'s \<Rightarrow> real \<Rightarrow> real \<Rightarrow> 's \<times> real"

text \<open>The state of an element that has been zero with a zero gradient for \<open>n\<close> steps.\<close>

fun zero_state :: "'s optimizer \<Rightarrow> nat \<Rightarrow> 's" where
  "zero_state opt 0 = opt_init opt"
| "zero_state opt (Suc n) = fst (opt_step opt (zero_state opt n) 0 0)"

text \<open>
  One update step of the table of an \<open>Embedding\<close>: the forward pass on the batch \<open>x\<close>
  (a failure ends the training), the gradient of the table from the gradient \<open>g\<close> of the
  loss with respect to the output of the forward pass (the positional table is a
  constant summand), and the optimizer's update of every element.
\<close>

definition train_step ::
  "'s optimizer \<Rightarrow> Embedding \<times> (nat list \<Rightarrow> 's) \<Rightarrow> int tensor \<times> real tensor \<Rightarrow>
   error + (Embedding \<times> (nat list \<Rightarrow> 's))" where
  "train_step opt ms batch =
     (case (ms, batch) of ((m, st), (x, g)) \<Rightarrow>
        bindE (Embedding_forward m x) (\<lambda>y.
        let grad = nn_Embedding_backward (embeddings m) x g;
            w = emb_weight (embeddings m);
            upd = (\<lambda>idx. opt_step opt (st idx) (el w idx) (el grad idx))
        in Inr (m\<lparr>embeddings := (embeddings m)
                     \<lparr>emb_weight := \<lparr>shape = shape w, el = (\<lambda>idx. snd (upd idx))\<rparr>\<rparr>\<rparr>,
                (\<lambda>idx. fst (upd idx)))))"

fun train ::
  "'s optimizer \<Rightarrow> Embedding \<times> (nat list \<Rightarrow> 's) \<Rightarrow> (int tensor \<times> real tensor) list \<Rightarrow>
   error + (Embedding \<times> (nat list \<Rightarrow> 's))" where
  "train opt ms [] = Inr ms"
| "train opt ms (b # bs) = bindE (train_step opt ms b) (\<lambda>ms'. train opt ms' bs)"

section \<open>Module invariants\<close>

text \<open>
  The shapes that the constructors establish and that training, which changes the
  elements of the parameters and nothing else, keeps.
\<close>

definition Linear_inv :: "nat \<Rightarrow> nat \<Rightarrow> Linear \<Rightarrow> bool" where
  "Linear_inv n_in n_out m \<longleftrightarrow>
     shape (weight m) = [n_out, n_in] \<and> shape (bias m) = [n_out]"

definition MultiHeadAttention_inv :: "nat \<Rightarrow> MultiHeadAttention \<Rightarrow> bool" where
  "MultiHeadAttention_inv d m \<longleftrightarrow>
     0 < mha_num_heads m \<and> 0 < mha_d_head m \<and> mha_num_heads m * mha_d_head m = int d \<and>
     Linear_inv d d (w_q m) \<and> Linear_inv d d (w_k m) \<and>
     Linear_inv d d (w_v m) \<and> Linear_inv d d (w_out m)"

definition EncoderBlock_inv :: "nat \<Rightarrow> nat \<Rightarrow> EncoderBlock \<Rightarrow> bool" where
  "EncoderBlock_inv d d_ff blk \<longleftrightarrow>
     MultiHeadAttention_inv d (multi_head_attention blk) \<and>
     normalized_shape (norm1 blk) = d \<and> normalized_shape (norm2 blk) = d \<and>
     (\<exists>l1 dp l2. pff blk = [LinearL l1, DropoutL dp, ReLUL, LinearL l2] \<and>
        Linear_inv d d_ff l1 \<and> Linear_inv d_ff d l2)"

definition Embedding_inv :: "nat \<Rightarrow> nat \<Rightarrow> nat \<Rightarrow> Embedding \<Rightarrow> bool" where
  "Embedding_inv vocab d s m \<longleftrightarrow>
     shape (emb_weight (embeddings m)) = [vocab, d] \<and>
     shape (pe (positional_embeddings m)) = [1, s, d]"

section \<open>The encoder block as the specification words it\<close>

text \<open>
  The two formulas of the specification, over the same layers:
  \<open>x' = LayerNorm(x + Dropout(SelfAttention(x, causal_mask, padding_mask)))\<close> and
  \<open>x'' = LayerNorm(x' + Dropout(Linear2(ReLU(Dropout(Linear1(x'))))))\<close>.
  \<open>SelfAttention\<close> is the output of the attention module, without its weights.
\<close>

definition spec_SelfAttention ::
  "MultiHeadAttention \<Rightarrow> dtype \<Rightarrow> real tensor \<Rightarrow> real tensor option \<Rightarrow>
   ('m::zero) tensor option \<Rightarrow> error + real tensor" where
  "spec_SelfAttention m dt x causal_mask padding_mask =
     map_sum id fst (MultiHeadAttention_forward m dt x None padding_mask causal_mask)"

definition spec_attention_sublayer ::
  "EncoderBlock \<Rightarrow> bool \<Rightarrow> block_draws \<Rightarrow> dtype \<Rightarrow> real tensor \<Rightarrow>
   real tensor option \<Rightarrow> ('m::zero) tensor option \<Rightarrow> error + real tensor" where
  "spec_attention_sublayer blk training draws dt x causal_mask padding_mask =
     bindE (spec_SelfAttention (multi_head_attention blk) dt x causal_mask padding_mask) (\<lambda>a.
     bindE (tensor_binop (+) x (Dropout_forward (dropout1 blk) training (draw1 draws) a))
       (LayerNorm_forward (norm1 blk)))"

definition spec_feed_forward_sublayer ::
  "EncoderBlock \<Rightarrow> Linear \<Rightarrow> Dropout \<Rightarrow> Linear \<Rightarrow> bool \<Rightarrow> block_draws \<Rightarrow> real tensor \<Rightarrow>
   error + real tensor" where
  "spec_feed_forward_sublayer blk linear1 inner_dropout linear2 training draws x' =
     bindE (Linear_forward linear1 x') (\<lambda>h.
     bindE (Linear_forward linear2
              (ReLU_forward (Dropout_forward inner_dropout training (draw_pff draws 1) h))) (\<lambda>f.
     bindE (tensor_binop (+) x' (Dropout_forward (dropout2 blk) training (draw2 draws) f))
       (LayerNorm_forward (norm2 blk))))"

definition spec_EncoderBlock ::
  "EncoderBlock \<Rightarrow> Linear \<Rightarrow> Dropout \<Rightarrow> Linear \<Rightarrow> bool \<Rightarrow> block_draws \<Rightarrow> dtype \<Rightarrow>
   real tensor \<Rightarrow> real tensor option \<Rightarrow> ('m::zero) tensor option \<Rightarrow> error + real tensor" where
  "spec_EncoderBlock blk linear1 inner_dropout linear2 training draws dt x causal_mask padding_mask =
     bindE (spec_attention_sublayer blk training draws dt x causal_mask padding_mask)
       (spec_feed_forward_sublayer blk linear1 inner_dropout linear2 training draws)"

section \<open>Basic lemmas on tensors\<close>

lemma shape_full [simp]: "shape (full s v) = s"
  and el_full [simp]: "el (full s v) idx = v"
  by (simp_all add: full_def)

lemma shape_arange [simp]: "shape (arange n) = [n]"
  and el_arange [simp]: "el (arange n) [i] = real i"
  by (simp_all add: arange_def)

lemma shape_tensor_map [simp]: "shape (tensor_map f t) = shape t"
  and el_tensor_map [simp]: "el (tensor_map f t) idx = f (el t idx)"
  by (simp_all add: tensor_map_def)

lemma shape_reindex [simp]: "shape (reindex s g t) = s"
  and el_reindex [simp]: "el (reindex s g t) idx = el t (g idx)"
  by (simp_all add: reindex_def)

lemma shape_broadcast_map [simp]: "shape (broadcast_map f s a b) = s"
  and el_broadcast_map [simp]:
    "el (broadcast_map f s a b) idx = f (el a (bindex (shape a) idx)) (el b (bindex (shape b) idx))"
  by (simp_all add: broadcast_map_def)

lemma shape_slice_cols [simp]:
  "shape (slice_cols start step t) = [shape t ! 0, (shape t ! 1 - start + step - 1) div step]"
  and el_slice_cols [simp]: "el (slice_cols start step t) [i, k] = el t [i, start + k * step]"
  by (simp_all add: slice_cols_def)

lemma shape_assign_cols [simp]: "shape (assign_cols start step t v) = shape t"
  and el_assign_cols [simp]:
    "el (assign_cols start step t v) [i, j] =
       (if start \<le> j \<and> (j - start) mod step = 0
        then el v (bindex (shape v) [i, (j - start) div step]) else el t [i, j])"
  by (simp_all add: assign_cols_def)

lemma shape_softmax_last [simp]: "shape (softmax_last t) = shape t"
  and el_softmax_last:
    "el (softmax_last t) idx
       = exp (el t idx) / (\<Sum>j<last (shape t). exp (el t (butlast idx @ [j])))"
  by (simp_all add: softmax_last_def)

lemma shape_split_heads [simp]:
  "shape (split_heads nh dh t) = [shape t ! 0, nh, shape t ! 1, dh]"
  and el_split_heads [simp]:
    "el (split_heads nh dh t) [bi, h, i, c] = el t [bi, i, h * dh + c]"
  by (simp_all add: split_heads_def)

lemma shape_swap_last [simp]:
  "shape (swap_last t) = [shape t ! 0, shape t ! 1, shape t ! 3, shape t ! 2]"
  and el_swap_last [simp]: "el (swap_last t) [bi, h, c, i] = el t [bi, h, i, c]"
  by (simp_all add: swap_last_def)

lemma shape_merge_heads [simp]:
  "shape (merge_heads t) = [shape t ! 0, shape t ! 2, shape t ! 1 * shape t ! 3]"
  and el_merge_heads [simp]:
    "el (merge_heads t) [bi, i, c] = el t [bi, c div shape t ! 3, i, c mod shape t ! 3]"
  by (simp_all add: merge_heads_def)

lemma shape_key_mask [simp]: "shape (key_mask t) = [shape t ! 0, 1, 1, shape t ! 1]"
  and el_key_mask [simp]: "el (key_mask t) [bi, h, i, j] = el t [bi, j]"
  by (simp_all add: key_mask_def)

lemma shape_triu [simp]: "shape (triu t k) = shape t"
  and el_triu [simp]:
    "el (triu t k) [i, j] = (if k \<le> int j - int i then el t [i, j] else 0)"
  by (simp_all add: triu_def)

lemma shape_first_rows [simp]:
  "shape (first_rows n t) = hd (shape t) # min n (shape t ! 1) # drop 2 (shape t)"
  and el_first_rows [simp]: "el (first_rows n t) = el t"
  by (simp_all add: first_rows_def)

lemma shape_matmul [simp]: "shape (matmul batch a b) = batch @ [shape a ! 2, shape b ! 3]"
  and el_matmul:
    "el (matmul batch a b) [bi, hi, i, j] =
       (\<Sum>c<shape a ! 3. el a (bindex (take 2 (shape a)) [bi, hi] @ [i, c])
                        * el b (bindex (take 2 (shape b)) [bi, hi] @ [c, j]))"
  by (simp_all add: matmul_def)

lemma shape_linear [simp]: "shape (linear m x) = butlast (shape x) @ [shape (weight m) ! 0]"
  and el_linear:
    "el (linear m x) idx =
       (\<Sum>k<shape (weight m) ! 1. el x (butlast idx @ [k]) * el (weight m) [last idx, k])
         + el (bias m) [last idx]"
  by (simp_all add: linear_def)

lemma shape_layer_norm [simp]: "shape (layer_norm m x) = shape x"
  by (simp add: layer_norm_def)

lemma shape_dropped [simp]: "shape (dropped p keep x) = shape x"
  by (simp add: dropped_def)

lemma shape_Dropout_forward [simp]: "shape (Dropout_forward m training keep x) = shape x"
  by (simp add: Dropout_forward_def)

lemma shape_ReLU_forward [simp]: "shape (ReLU_forward x) = shape x"
  by (simp add: ReLU_forward_def)

lemma shape_lookup [simp]: "shape (lookup m x) = shape x @ [shape (emb_weight m) ! 1]"
  and el_lookup:
    "el (lookup m x) idx = el (emb_weight m) [nat (el x (butlast idx)), last idx]"
  by (simp_all add: lookup_def)

lemma broadcast_rev_same: "broadcast_rev xs xs = Some xs"
  by (induction xs) auto

lemma broadcast_shapes_same [simp]: "broadcast_shapes s s = Some s"
  by (simp add: broadcast_shapes_def broadcast_rev_same)

lemma bindex_inside:
  "length idx = length shp \<Longrightarrow> \<forall>k < length shp. idx ! k < shp ! k \<Longrightarrow> bindex shp idx = idx"
  unfolding bindex_def by (rule nth_equalityI) auto

lemma bindex2 [simp]: "i < n \<Longrightarrow> k < m \<Longrightarrow> bindex [n, m] [i, k] = [i, k]"
  by (auto simp: bindex_def)

lemma tensor_binop_Inr:
  "broadcast_shapes (shape a) (shape b) = Some s \<Longrightarrow>
   tensor_binop f a b = Inr (broadcast_map f s a b)"
  by (simp add: tensor_binop_def)

lemma bindE_eq_Inr: "bindE m f = Inr y \<longleftrightarrow> (\<exists>v. m = Inr v \<and> f v = Inr y)"
  by (cases m) auto

lemma bc_col_row [simp]: "broadcast_shapes [n, Suc 0] [d] = Some [n, d]"
  by (simp add: broadcast_shapes_def)

lemma bindex_col [simp]: "i < n \<Longrightarrow> bindex [n, Suc 0] [i, k] = [i, 0]"
  by (auto simp: bindex_def)

lemma bindex_row [simp]: "k < m \<Longrightarrow> bindex [m] [i, k] = [k]"
  by (auto simp: bindex_def)

section \<open>The positional table\<close>

lemma even_col_facts:
  assumes "even (c::nat)" "c < d"
  shows "c div 2 * 2 = c" "c div 2 < (d + 1) div 2"
    "\<not> (Suc 0 \<le> c \<and> (c - Suc 0) mod 2 = 0)"
  using assms by presburger+

lemma odd_col_facts:
  assumes "odd (c::nat)" "c < d"
  shows "Suc ((c - Suc 0) div 2 * 2) = c" "(c - Suc 0) div 2 < d div 2"
    "Suc 0 \<le> c" "(c - Suc 0) mod 2 = 0"
  using assms by presburger+

lemma reset_parameters_table:
  assumes "0 \<le> seq_length" "0 < d_model"
  shows "\<exists>t. PositionalEncoding_reset_parameters seq_length d_model = Inr t \<and>
      shape t = [1, nat seq_length, nat d_model] \<and>
      (\<forall>pos < nat seq_length. \<forall>col < nat d_model.
         el t [0, pos, col] =
           (if even col then sin (real pos / 10000 powr (2 * real col / real_of_int d_model))
            else cos (real pos / 10000 powr (2 * real col / real_of_int d_model))))"
proof -
  let ?args = "broadcast_map (/) [nat seq_length, nat d_model]
                 (reindex [nat seq_length, 1] (\<lambda>idx. [hd idx]) (arange (nat seq_length)))
                 (tensor_map ((powr) 10000)
                    (tensor_map ((*) (2 / real_of_int d_model)) (arange (nat d_model))))"
  let ?T = "reindex [1, nat seq_length, nat d_model] tl
              (assign_cols 1 2
                 (assign_cols 0 2 (full [nat seq_length, nat d_model] 0)
                    (slice_cols 0 2 (tensor_map sin ?args)))
                 (slice_cols 1 2 (tensor_map cos ?args)))"
  have run: "PositionalEncoding_reset_parameters seq_length d_model = Inr ?T"
    using assms
    by (simp add: PositionalEncoding_reset_parameters_def torch_zeros_def torch_arange_def
        rearrange_n_to_n1_def tensor_binop_def getitem_cols_def setitem_cols_def
        rearrange_sd_to_1sd_def)
  have ev: "el ?T [0, pos, c] = sin (real pos / 10000 powr (2 * real c / real_of_int d_model))"
    if "pos < nat seq_length" "c < nat d_model" "even c" for pos c
    using that even_col_facts[OF that(3) that(2)] by auto
  have od: "el ?T [0, pos, c] = cos (real pos / 10000 powr (2 * real c / real_of_int d_model))"
    if "pos < nat seq_length" "c < nat d_model" "odd c" for pos c
    using that odd_col_facts[OF that(3) that(2)] by auto
  show ?thesis
    unfolding run using ev od by auto
qed

text \<open>
  Claim C1.  A construction of \<open>PositionalEncoding\<close> with a sequence length
  \<open>seq_length \<ge> 0\<close> and a width \<open>d_model > 0\<close> succeeds and stores one table \<open>pe\<close> of
  shape \<open>[1, seq_length, d_model]\<close>, a function of the two parameters only, with
  \<open>pe[pos, col] = sin (pos / 10000^(2 col / d_model))\<close> in every even column and
  \<open>cos (pos / 10000^(2 col / d_model))\<close> in every odd column: each column has its own
  index in the exponent.  Every forward call returns the first rows of this stored table
  and builds nothing.  (Elements are real numbers here, so that \<open>(2 / d_model) * col\<close>,
  as the source computes the exponent, is \<open>2 col / d_model\<close>.)
\<close>

theorem positional_table_formula:
  assumes "0 \<le> seq_length" "0 < d_model"
  shows "\<exists>m. PositionalEncoding_init seq_length d_model = Inr m \<and>
      shape (pe m) = [1, nat seq_length, nat d_model] \<and>
      (\<forall>pos < nat seq_length. \<forall>col < nat d_model.
         el (pe m) [0, pos, col] =
           (if even col then sin (real pos / 10000 powr (2 * real col / real_of_int d_model))
            else cos (real pos / 10000 powr (2 * real col / real_of_int d_model)))) \<and>
      (\<forall>x :: 'a tensor. 2 \<le> length (shape x) \<longrightarrow>
         PositionalEncoding_forward m x = Inr (first_rows (shape x ! 1) (pe m)))"
proof -
  from reset_parameters_table[OF assms] obtain t where
    t: "PositionalEncoding_reset_parameters seq_length d_model = Inr t"
      "shape t = [1, nat seq_length, nat d_model]"
      "\<forall>pos < nat seq_length. \<forall>col < nat d_model.
         el t [0, pos, col] =
           (if even col then sin (real pos / 10000 powr (2 * real col / real_of_int d_model))
            else cos (real pos / 10000 powr (2 * real col / real_of_int d_model)))"
    by blast
  have "PositionalEncoding_init seq_length d_model =
          Inr \<lparr>pe_seq_length = seq_length, pe_d_model = d_model, pe = t\<rparr>"
    by (simp add: PositionalEncoding_init_def t(1))
  then show ?thesis using t(2,3)
    by (simp add: PositionalEncoding_forward_def getitem_rows_def)
qed

theorem positional_table_formula_witness:
  "\<exists>m. PositionalEncoding_init 2 2 = Inr m \<and> shape (pe m) = [1, 2, 2] \<and>
     el (pe m) [0, 1, 0] = sin 1 \<and> el (pe m) [0, 1, 1] = cos (1 / 10000) \<and>
     PositionalEncoding_forward m (full [3, 1] (0::int)) = Inr (first_rows 1 (pe m))"
proof -
  have "\<exists>m. PositionalEncoding_init 2 2 = Inr m \<and>
      shape (pe m) = [1, nat 2, nat 2] \<and>
      (\<forall>pos < nat 2. \<forall>col < nat 2.
         el (pe m) [0, pos, col] =
           (if even col then sin (real pos / 10000 powr (2 * real col / real_of_int 2))
            else cos (real pos / 10000 powr (2 * real col / real_of_int 2)))) \<and>
      (\<forall>x :: int tensor. 2 \<le> length (shape x) \<longrightarrow>
         PositionalEncoding_forward m x = Inr (first_rows (shape x ! 1) (pe m)))"
    by (rule positional_table_formula) simp_all
  then obtain m where
    m: "PositionalEncoding_init 2 2 = Inr m" "shape (pe m) = [1, nat 2, nat 2]"
      "\<forall>pos < nat 2. \<forall>col < nat 2.
         el (pe m) [0, pos, col] =
           (if even col then sin (real pos / 10000 powr (2 * real col / real_of_int 2))
            else cos (real pos / 10000 powr (2 * real col / real_of_int 2)))"
      "\<forall>x :: int tensor. 2 \<le> length (shape x) \<longrightarrow>
         PositionalEncoding_forward m x = Inr (first_rows (shape x ! 1) (pe m))"
    by (elim exE conjE) (rule that; assumption)
  from m(3) have "el (pe m) [0, 1, 0] = sin 1" "el (pe m) [0, 1, 1] = cos (1 / 10000)"
    by (auto simp: numeral_2_eq_2)
  moreover from m(4)[rule_format, of "full [3, 1] 0"]
  have "PositionalEncoding_forward m (full [3, 1] (0::int)) = Inr (first_rows 1 (pe m))"
    by simp
  ultimately show ?thesis using m(1,2) by (auto simp: numeral_2_eq_2)
qed

section \<open>Construction of the attention module\<close>

lemma nn_Linear_Inr:
  "0 \<le> n_in \<Longrightarrow> 0 \<le> n_out \<Longrightarrow>
   nn_Linear n_in n_out w b =
     Inr \<lparr>in_features = nat n_in, out_features = nat n_out,
          weight = \<lparr>shape = [nat n_out, nat n_in], el = w\<rparr>,
          bias = \<lparr>shape = [nat n_out], el = b\<rparr>\<rparr>"
  by (simp add: nn_Linear_def)

lemma reset_linear_Inr:
  "shape (weight m) = [a, b] \<Longrightarrow> 0 < a + b \<Longrightarrow>
   reset_linear m draw =
     Inr (m\<lparr>weight := \<lparr>shape = [a, b], el = draw\<rparr>, bias := full (shape (bias m)) 0\<rparr>)"
  by (auto simp: reset_linear_def xavier_uniform_def)

lemma MultiHeadAttention_init_Inr:
  assumes "0 < d_model" "d_model mod num_heads = 0"
  shows "\<exists>m. MultiHeadAttention_init num_heads d_model rnd = Inr m"
proof -
  have "num_heads \<noteq> 0" using assms by (metis mod_by_0 less_irrefl)
  then show ?thesis using assms
    by (simp add: MultiHeadAttention_init_def nn_Linear_Inr
        MultiHeadAttention_reset_parameters_def reset_linear_Inr)
qed

lemma MultiHeadAttention_init_eq:
  assumes "0 < d_model" "num_heads \<noteq> 0" "d_model mod num_heads = 0"
  shows "MultiHeadAttention_init num_heads d_model rnd =
     Inr \<lparr>mha_num_heads = num_heads, mha_d_head = d_model div num_heads,
          w_q = \<lparr>in_features = nat d_model, out_features = nat d_model,
                 weight = \<lparr>shape = [nat d_model, nat d_model], el = rnd ''xavier.w_q''\<rparr>,
                 bias = full [nat d_model] 0\<rparr>,
          w_k = \<lparr>in_features = nat d_model, out_features = nat d_model,
                 weight = \<lparr>shape = [nat d_model, nat d_model], el = rnd ''xavier.w_k''\<rparr>,
                 bias = full [nat d_model] 0\<rparr>,
          w_v = \<lparr>in_features = nat d_model, out_features = nat d_model,
                 weight = \<lparr>shape = [nat d_model, nat d_model], el = rnd ''xavier.w_v''\<rparr>,
                 bias = full [nat d_model] 0\<rparr>,
          w_out = \<lparr>in_features = nat d_model, out_features = nat d_model,
                 weight = \<lparr>shape = [nat d_model, nat d_model], el = rnd ''xavier.w_out''\<rparr>,
                 bias = full [nat d_model] 0\<rparr>\<rparr>"
  using assms
  by (simp add: MultiHeadAttention_init_def nn_Linear_Inr
      MultiHeadAttention_reset_parameters_def reset_linear_Inr)

lemma MultiHeadAttention_init_heads:
  "MultiHeadAttention_init num_heads d_model rnd = Inr m \<Longrightarrow>
   mha_num_heads m = num_heads \<and> mha_d_head m = d_model div num_heads"
  by (auto simp: MultiHeadAttention_init_def MultiHeadAttention_reset_parameters_def
      bindE_eq_Inr split: if_splits)

lemma MultiHeadAttention_init_weights:
  assumes "MultiHeadAttention_init num_heads d_model rnd = Inr m" "0 < d_model"
  shows "w_q m = \<lparr>in_features = nat d_model, out_features = nat d_model,
                 weight = \<lparr>shape = [nat d_model, nat d_model], el = rnd ''xavier.w_q''\<rparr>,
                 bias = full [nat d_model] 0\<rparr>"
    and "w_k m = \<lparr>in_features = nat d_model, out_features = nat d_model,
                 weight = \<lparr>shape = [nat d_model, nat d_model], el = rnd ''xavier.w_k''\<rparr>,
                 bias = full [nat d_model] 0\<rparr>"
proof -
  have c: "num_heads \<noteq> 0" "d_model mod num_heads = 0"
    using assms(1) by (auto simp: MultiHeadAttention_init_def split: if_splits)
  note eq = MultiHeadAttention_init_eq[OF assms(2) c, of rnd]
  have "Inr m = MultiHeadAttention_init num_heads d_model rnd" using assms(1) by simp
  then have m: "m = projr (MultiHeadAttention_init num_heads d_model rnd)"
    by (metis sum.sel(2))
  show "w_q m = \<lparr>in_features = nat d_model, out_features = nat d_model,
                 weight = \<lparr>shape = [nat d_model, nat d_model], el = rnd ''xavier.w_q''\<rparr>,
                 bias = full [nat d_model] 0\<rparr>"
    and "w_k m = \<lparr>in_features = nat d_model, out_features = nat d_model,
                 weight = \<lparr>shape = [nat d_model, nat d_model], el = rnd ''xavier.w_k''\<rparr>,
                 bias = full [nat d_model] 0\<rparr>"
    unfolding m eq by simp_all
qed

lemma MultiHeadAttention_init_inv:
  assumes "MultiHeadAttention_init num_heads d_model rnd = Inr m" "0 < d_model" "0 < num_heads"
  shows "MultiHeadAttention_inv (nat d_model) m"
proof -
  have dv: "d_model mod num_heads = 0"
    using assms(1,3) by (auto simp: MultiHeadAttention_init_def split: if_splits)
  then have "num_heads dvd d_model" by auto
  then obtain k where k: "d_model = num_heads * k" ..
  then have kp: "0 < k" using assms(2,3) by (simp add: zero_less_mult_iff)
  have q: "d_model div num_heads = k" using k assms(3) by simp
  have nz: "num_heads \<noteq> 0" using assms(3) by simp
  note eq = MultiHeadAttention_init_eq[OF assms(2) nz dv, of rnd]
  have "Inr m = MultiHeadAttention_init num_heads d_model rnd" using assms(1) by simp
  then show ?thesis
    unfolding eq using assms(2,3) kp
    by (auto simp: MultiHeadAttention_inv_def Linear_inv_def q k nat_mult_distrib)
qed

text \<open>
  Claim C6.  For a width \<open>d_model > 0\<close>, constructing \<open>MultiHeadAttention\<close> fails if and
  only if \<open>d_model mod num_heads \<noteq> 0\<close>, whatever values the initialisation draws.  The
  construction is a function of its own: it fails before any forward call.
\<close>

theorem mha_init_fails_iff:
  "0 < d_model \<Longrightarrow>
   (\<exists>e. MultiHeadAttention_init num_heads d_model rnd = Inl e) \<longleftrightarrow> d_model mod num_heads \<noteq> 0"
proof -
  assume d: "0 < d_model"
  show ?thesis
  proof (cases "d_model mod num_heads = 0")
    case True
    then show ?thesis using MultiHeadAttention_init_Inr[OF d True, of rnd] by auto
  next
    case False
    then show ?thesis by (auto simp: MultiHeadAttention_init_def)
  qed
qed

theorem mha_init_fails_iff_witness:
  "(\<exists>e. MultiHeadAttention_init 3 10 (\<lambda>name idx. 0) = Inl e) \<and>
   \<not> (\<exists>e. MultiHeadAttention_init 2 10 (\<lambda>name idx. 0) = Inl e)"
  using mha_init_fails_iff[of 10 3 "\<lambda>name idx. 0"] mha_init_fails_iff[of 10 2 "\<lambda>name idx. 0"]
  by simp

section \<open>The encoder without a causal mask\<close>

lemma build_blocks_length:
  "build_blocks ls d_model num_heads dropout rnd = Inr bs \<Longrightarrow> length bs = length ls"
  by (induction ls arbitrary: bs) (auto simp: bindE_eq_Inr)

lemma Encoder_init_not_causal:
  assumes "Encoder_init num_layers num_heads d_model dropout seq_len False rnd = Inr enc"
  shows "causal_mask_tensor enc = None" "length (encoders enc) = nat num_layers"
  using assms by (auto simp: Encoder_init_def bindE_eq_Inr dest: build_blocks_length)

text \<open>
  Claim C2 does not hold of the code.  An \<open>Encoder\<close> constructed with
  \<^verbatim>\<open>causal_mask=False\<close> and at least one layer never registers the buffer
  \<^verbatim>\<open>causal_mask_tensor\<close>, and \<^verbatim>\<open>forward\<close> reads it in its first iteration: every forward
  call raises \<open>AttributeError\<close>, whatever the input.
\<close>

theorem encoder_forward_not_causal_raises:
  assumes "Encoder_init num_layers num_heads d_model dropout seq_len False rnd = Inr enc"
    and "0 < num_layers"
  shows "Encoder_forward enc training draws dt x msk = Inl AttributeError"
proof -
  from assms Encoder_init_not_causal[OF assms(1)] obtain e es where "encoders enc = e # es"
    by (cases "encoders enc") auto
  then show ?thesis using Encoder_init_not_causal(1)[OF assms(1)]
    by (simp add: Encoder_forward_def)
qed

theorem encoder_forward_not_causal_raises_witness:
  "\<exists>enc. Encoder_init 1 1 1 0 1 False (\<lambda>l name idx. 0) = Inr enc \<and>
     Encoder_forward enc False
       (\<lambda>l. \<lparr>draw1 = (\<lambda>idx. True), draw_pff = (\<lambda>k idx. True), draw2 = (\<lambda>idx. True)\<rparr>)
       Float32 (full [1, 1, 1] 0) (None :: int tensor option) = Inl AttributeError"
proof -
  have "\<exists>enc. Encoder_init 1 1 1 0 1 False (\<lambda>l name idx. 0) = Inr enc"
    by (simp add: Encoder_init_def EncoderBlock_init_def MultiHeadAttention_init_def
        nn_Linear_Inr MultiHeadAttention_reset_parameters_def reset_linear_Inr
        nn_LayerNorm_def nn_Dropout_def)
  then obtain enc where e: "Encoder_init 1 1 1 0 1 False (\<lambda>l name idx. 0) = Inr enc" ..
  show ?thesis
    using e encoder_forward_not_causal_raises[OF e, of False _ Float32 "full [1, 1, 1] 0"
        "None :: int tensor option"]
    by auto
qed

section \<open>The forward pass of the attention module\<close>

lemma Linear_forward_Inr:
  "Linear_inv n_in n_out m \<Longrightarrow> shape x = s @ [n_in] \<Longrightarrow> Linear_forward m x = Inr (linear m x)"
  by (simp add: Linear_forward_def Linear_inv_def)

lemma shape_linear_inv:
  "Linear_inv n_in n_out m \<Longrightarrow> shape x = s @ [n_in] \<Longrightarrow> shape (linear m x) = s @ [n_out]"
  by (simp add: Linear_inv_def)

lemma torch_matmul_Inr:
  "shape a = [b, h, n, k] \<Longrightarrow> shape c = [b, h, k, m] \<Longrightarrow>
   torch_matmul a c = Inr (matmul [b, h] a c)"
  by (simp add: torch_matmul_def)

lemma clamp_inside [simp]: "i < n \<Longrightarrow> (if n = Suc 0 then 0 else i) = i"
  by auto

lemma bindex_batch [simp]: "bi < b \<Longrightarrow> h < n \<Longrightarrow> bindex [b, n] [bi, h] = [bi, h]"
  by (simp add: bindex_def)

lemma bindex_full4 [simp]:
  "bi < b \<Longrightarrow> h < n \<Longrightarrow> i < lq \<Longrightarrow> j < lk \<Longrightarrow> bindex [b, n, lq, lk] [bi, h, i, j] = [bi, h, i, j]"
  by (simp add: bindex_def)

lemma bindex_key4 [simp]:
  "bi < b \<Longrightarrow> j < lk \<Longrightarrow> bindex [b, Suc 0, Suc 0, lk] [bi, h, i, j] = [bi, 0, 0, j]"
  by (simp add: bindex_def)

lemma bindex_causal4 [simp]:
  "i < lq \<Longrightarrow> j < lk \<Longrightarrow> bindex [lq, lk] [bi, h, i, j] = [i, j]"
  by (simp add: bindex_def)

lemma bc_key [simp]: "broadcast_shapes [b, n, lq, lk] [b, Suc 0, Suc 0, lk] = Some [b, n, lq, lk]"
  by (simp add: broadcast_shapes_def)

lemma bc_causal [simp]: "broadcast_shapes [b, n, lq, lk] [lq, lk] = Some [b, n, lq, lk]"
  by (simp add: broadcast_shapes_def)

lemma attention_logits_of_Inr:
  assumes inv: "MultiHeadAttention_inv d m"
    and q: "shape query = [b, lq, d]"
    and v: "shape (case val of None \<Rightarrow> query | Some v \<Rightarrow> v) = [b, lk, d]"
  shows "attention_logits_of m query val =
     Inr (tensor_map (\<lambda>v. v / sqrt (real (nat (mha_d_head m))))
            (matmul [b, nat (mha_num_heads m)]
               (split_heads (nat (mha_num_heads m)) (nat (mha_d_head m)) (linear (w_q m) query))
               (swap_last (split_heads (nat (mha_num_heads m)) (nat (mha_d_head m))
                  (linear (w_k m) (case val of None \<Rightarrow> query | Some v \<Rightarrow> v))))),
          split_heads (nat (mha_num_heads m)) (nat (mha_d_head m))
            (linear (w_v m) (case val of None \<Rightarrow> query | Some v \<Rightarrow> v)))"
proof -
  let ?v = "case val of None \<Rightarrow> query | Some v \<Rightarrow> v"
  have li: "Linear_inv d d (w_q m)" "Linear_inv d d (w_k m)" "Linear_inv d d (w_v m)"
    using inv by (auto simp: MultiHeadAttention_inv_def)
  have pos: "0 < mha_num_heads m" "0 < mha_d_head m" "mha_num_heads m * mha_d_head m = int d"
    using inv by (auto simp: MultiHeadAttention_inv_def)
  have sq: "shape query = [b, lq] @ [d]" and sv: "shape ?v = [b, lk] @ [d]" using q v by simp_all
  have lq: "Linear_forward (w_q m) query = Inr (linear (w_q m) query)"
    by (rule Linear_forward_Inr[OF li(1) sq])
  have lk: "Linear_forward (w_k m) ?v = Inr (linear (w_k m) ?v)"
    by (rule Linear_forward_Inr[OF li(2) sv])
  have lv: "Linear_forward (w_v m) ?v = Inr (linear (w_v m) ?v)"
    by (rule Linear_forward_Inr[OF li(3) sv])
  have s1: "shape (linear (w_q m) query) = [b, lq, d]" using shape_linear_inv[OF li(1) sq] by simp
  have s2: "shape (linear (w_k m) ?v) = [b, lk, d]" using shape_linear_inv[OF li(2) sv] by simp
  have s3: "shape (linear (w_v m) ?v) = [b, lk, d]" using shape_linear_inv[OF li(3) sv] by simp
  show ?thesis
    unfolding attention_logits_of_def using pos
    by (simp add: lq lk lv rearrange_split_heads_def rearrange_swap_last_def s1 s2 s3
        torch_matmul_def del: shape_linear)
qed

lemma apply_mask_Inr:
  assumes l: "shape logits = [b, n, lq, lk]"
    and p: "case padding_mask of None \<Rightarrow> True | Some pm \<Rightarrow> shape pm = [b, lk]"
    and c: "case causal_mask of None \<Rightarrow> True | Some cm \<Rightarrow> shape cm = [lq, lk]"
  shows "\<exists>masked. apply_mask dt logits padding_mask causal_mask = Inr masked \<and>
     shape masked = [b, n, lq, lk] \<and>
     (\<forall>bi<b. \<forall>h<n. \<forall>i<lq. \<forall>j<lk.
        el masked [bi, h, i, j] =
          (if (case padding_mask of None \<Rightarrow> False | Some pm \<Rightarrow> el pm [bi, j] = 0) \<or>
              (case causal_mask of None \<Rightarrow> False | Some cm \<Rightarrow> el cm [i, j] = 0)
           then large_neg_value dt else el logits [bi, h, i, j]))"
proof -
  have k: "shape (tensor_map (\<lambda>v. v = 0) (key_mask pm)) = [b, Suc 0, Suc 0, lk]"
    if "shape pm = [b, lk]" for pm :: "'a tensor"
    using that by simp
  show ?thesis
  proof (cases padding_mask)
    case None
    show ?thesis
    proof (cases causal_mask)
      case N2: None
      show ?thesis using None N2 l by (simp add: apply_mask_def)
    next
      case (Some cm)
      then have "shape cm = [lq, lk]" using c by simp
      then show ?thesis using None Some l
        by (simp add: apply_mask_def masked_fill_def tensor_binop_def)
    qed
  next
    case (Some pm)
    then have sp: "shape pm = [b, lk]" using p by simp
    show ?thesis
    proof (cases causal_mask)
      case None
      show ?thesis using None Some l sp
        by (simp add: apply_mask_def masked_fill_def tensor_binop_def rearrange_bs_to_b11s_def)
    next
      case S2: (Some cm)
      then have "shape cm = [lq, lk]" using c by simp
      then show ?thesis using S2 Some l sp
        by (simp add: apply_mask_def masked_fill_def tensor_binop_def rearrange_bs_to_b11s_def)
    qed
  qed
qed

lemma softmax_row_sum:
  assumes "shape t = [b, n, lq, lk]" "0 < lk"
  shows "(\<Sum>j<lk. el (softmax_last t) [bi, h, i, j]) = 1"
proof -
  have pos: "0 < (\<Sum>j<lk. exp (el t [bi, h, i, j]))"
    using assms(2) by (intro sum_pos) auto
  have "(\<Sum>j<lk. el (softmax_last t) [bi, h, i, j])
          = (\<Sum>j<lk. exp (el t [bi, h, i, j])) / (\<Sum>j<lk. exp (el t [bi, h, i, j]))"
    by (simp add: el_softmax_last assms(1) flip: sum_divide_distrib)
  then show ?thesis using pos by simp
qed

lemma mha_forward_Inr:
  assumes inv: "MultiHeadAttention_inv d m"
    and q: "shape query = [b, lq, d]"
    and v: "shape (case val of None \<Rightarrow> query | Some v \<Rightarrow> v) = [b, lk, d]"
    and l: "attention_logits_of m query val = Inr (logits, v_proj)"
    and a: "apply_mask dt logits padding_mask causal_mask = Inr masked"
    and sm: "shape masked = [b, nat (mha_num_heads m), lq, lk]"
  shows "\<exists>output. MultiHeadAttention_forward m dt query val padding_mask causal_mask
            = Inr (output, softmax_last masked) \<and> shape output = [b, lq, d]"
proof -
  let ?v = "case val of None \<Rightarrow> query | Some v \<Rightarrow> v"
  have vp: "v_proj = split_heads (nat (mha_num_heads m)) (nat (mha_d_head m)) (linear (w_v m) ?v)"
    using l attention_logits_of_Inr[OF inv q v] by simp
  have li: "Linear_inv d d (w_v m)" "Linear_inv d d (w_out m)"
    using inv by (auto simp: MultiHeadAttention_inv_def)
  have pos: "0 < mha_num_heads m" "0 < mha_d_head m" "mha_num_heads m * mha_d_head m = int d"
    using inv by (auto simp: MultiHeadAttention_inv_def)
  have hd: "nat (mha_num_heads m) * nat (mha_d_head m) = d"
    using pos by (metis nat_int nat_mult_distrib less_imp_le)
  have sv: "shape ?v = [b, lk] @ [d]" using v by simp
  have s3: "shape (linear (w_v m) ?v) = [b, lk, d]" using shape_linear_inv[OF li(1) sv] by simp
  have svp: "shape v_proj = [b, nat (mha_num_heads m), lk, nat (mha_d_head m)]"
    by (simp add: vp s3 del: shape_linear)
  have mm: "torch_matmul (softmax_last masked) v_proj
              = Inr (matmul [b, nat (mha_num_heads m)] (softmax_last masked) v_proj)"
    by (rule torch_matmul_Inr) (simp_all add: sm svp)
  have so: "shape (merge_heads (matmul [b, nat (mha_num_heads m)] (softmax_last masked) v_proj))
              = [b, lq] @ [d]"
    by (simp add: sm svp hd)
  show ?thesis
    unfolding MultiHeadAttention_forward_def
    using shape_linear_inv[OF li(2) so]
    by (simp add: l a mm rearrange_merge_heads_def sm svp Linear_forward_Inr[OF li(2) so]
        del: shape_linear shape_merge_heads)
qed

lemma mha_forward_structure:
  assumes inv: "MultiHeadAttention_inv d m"
    and q: "shape query = [b, lq, d]"
    and v: "shape (case val of None \<Rightarrow> query | Some v \<Rightarrow> v) = [b, lk, d]"
    and p: "case padding_mask of None \<Rightarrow> True | Some pm \<Rightarrow> shape pm = [b, lk]"
    and c: "case causal_mask of None \<Rightarrow> True | Some cm \<Rightarrow> shape cm = [lq, lk]"
  shows "\<exists>logits v_proj masked output.
     attention_logits_of m query val = Inr (logits, v_proj) \<and>
     apply_mask dt logits padding_mask causal_mask = Inr masked \<and>
     MultiHeadAttention_forward m dt query val padding_mask causal_mask
       = Inr (output, softmax_last masked) \<and>
     shape output = [b, lq, d] \<and>
     shape masked = [b, nat (mha_num_heads m), lq, lk] \<and>
     (\<forall>bi<b. \<forall>h<nat (mha_num_heads m). \<forall>i<lq. \<forall>j<lk.
        el logits [bi, h, i, j] =
          (\<Sum>c<nat (mha_d_head m).
             el (split_heads (nat (mha_num_heads m)) (nat (mha_d_head m))
                   (linear (w_q m) query)) [bi, h, i, c]
           * el (split_heads (nat (mha_num_heads m)) (nat (mha_d_head m))
                   (linear (w_k m) (case val of None \<Rightarrow> query | Some v \<Rightarrow> v))) [bi, h, j, c])
          / sqrt (real (nat (mha_d_head m))) \<and>
        el masked [bi, h, i, j] =
          (if (case padding_mask of None \<Rightarrow> False | Some pm \<Rightarrow> el pm [bi, j] = 0) \<or>
              (case causal_mask of None \<Rightarrow> False | Some cm \<Rightarrow> el cm [i, j] = 0)
           then large_neg_value dt else el logits [bi, h, i, j]))"
proof -
  let ?v = "case val of None \<Rightarrow> query | Some v \<Rightarrow> v"
  let ?H = "nat (mha_num_heads m)" and ?dh = "nat (mha_d_head m)"
  let ?Q = "split_heads ?H ?dh (linear (w_q m) query)"
  let ?K = "split_heads ?H ?dh (linear (w_k m) ?v)"
  let ?V = "split_heads ?H ?dh (linear (w_v m) ?v)"
  let ?L = "tensor_map (\<lambda>v. v / sqrt (real ?dh)) (matmul [b, ?H] ?Q (swap_last ?K))"
  have li: "Linear_inv d d (w_q m)" "Linear_inv d d (w_k m)"
    using inv by (auto simp: MultiHeadAttention_inv_def)
  have sq: "shape query = [b, lq] @ [d]" and sv: "shape ?v = [b, lk] @ [d]" using q v by simp_all
  have s1: "shape (linear (w_q m) query) = [b, lq, d]" using shape_linear_inv[OF li(1) sq] by simp
  have s2: "shape (linear (w_k m) ?v) = [b, lk, d]" using shape_linear_inv[OF li(2) sv] by simp
  have lg: "attention_logits_of m query val = Inr (?L, ?V)"
    by (rule attention_logits_of_Inr[OF inv q v])
  have sl: "shape ?L = [b, ?H, lq, lk]"
    by (simp add: s1 s2 del: shape_linear)
  from apply_mask_Inr[OF sl p c, of dt] obtain masked where
    mk: "apply_mask dt ?L padding_mask causal_mask = Inr masked"
      "shape masked = [b, ?H, lq, lk]"
      "\<forall>bi<b. \<forall>h<?H. \<forall>i<lq. \<forall>j<lk.
        el masked [bi, h, i, j] =
          (if (case padding_mask of None \<Rightarrow> False | Some pm \<Rightarrow> el pm [bi, j] = 0) \<or>
              (case causal_mask of None \<Rightarrow> False | Some cm \<Rightarrow> el cm [i, j] = 0)
           then large_neg_value dt else el ?L [bi, h, i, j])"
    by blast
  from mha_forward_Inr[OF inv q v lg mk(1) mk(2)] obtain outp where
    out: "MultiHeadAttention_forward m dt query val padding_mask causal_mask
            = Inr (outp, softmax_last masked)" "shape outp = [b, lq, d]"
    by blast
  have el: "el ?L [bi, h, i, j] =
      (\<Sum>c<?dh. el ?Q [bi, h, i, c] * el ?K [bi, h, j, c]) / sqrt (real ?dh)"
    if "bi < b" "h < ?H" for bi h i j
    using that by (simp add: el_matmul s1 s2 del: shape_linear)
  show ?thesis
    using lg mk out el by (intro exI[of _ ?L] exI[of _ ?V] exI[of _ masked] exI[of _ outp]) simp
qed

text \<open>
  Claim C3.  In a well-shaped call of \<^verbatim>\<open>MultiHeadAttention.forward\<close> the raw logits are
  \<open>Q K\<^sup>T / sqrt d_head\<close>, where \<open>Q\<close> and \<open>K\<close> are the query and key projections split
  into heads.  Before the softmax, the logit at \<open>[bi, h, i, j]\<close> is replaced by the
  constant \<open>large_neg_value\<close> exactly when the padding mask is 0 at \<open>[bi, j]\<close> (for
  every head \<open>h\<close> and query position \<open>i\<close>) or the causal mask is 0 at \<open>[i, j]\<close>, and is
  left as it is otherwise; an absent mask suppresses nothing.  The weights are the
  softmax of the masked logits.
\<close>

theorem attention_logits_and_masks:
  assumes "MultiHeadAttention_inv d m"
    and "shape query = [b, lq, d]"
    and "shape (case val of None \<Rightarrow> query | Some v \<Rightarrow> v) = [b, lk, d]"
    and "case padding_mask of None \<Rightarrow> True | Some pm \<Rightarrow> shape pm = [b, lk]"
    and "case causal_mask of None \<Rightarrow> True | Some cm \<Rightarrow> shape cm = [lq, lk]"
  shows "\<exists>logits v_proj masked output.
     attention_logits_of m query val = Inr (logits, v_proj) \<and>
     apply_mask dt logits padding_mask causal_mask = Inr masked \<and>
     MultiHeadAttention_forward m dt query val padding_mask causal_mask
       = Inr (output, softmax_last masked) \<and>
     (\<forall>bi<b. \<forall>h<nat (mha_num_heads m). \<forall>i<lq. \<forall>j<lk.
        el logits [bi, h, i, j] =
          (\<Sum>c<nat (mha_d_head m).
             el (split_heads (nat (mha_num_heads m)) (nat (mha_d_head m))
                   (linear (w_q m) query)) [bi, h, i, c]
           * el (split_heads (nat (mha_num_heads m)) (nat (mha_d_head m))
                   (linear (w_k m) (case val of None \<Rightarrow> query | Some v \<Rightarrow> v))) [bi, h, j, c])
          / sqrt (real (nat (mha_d_head m))) \<and>
        el masked [bi, h, i, j] =
          (if (case padding_mask of None \<Rightarrow> False | Some pm \<Rightarrow> el pm [bi, j] = 0) \<or>
              (case causal_mask of None \<Rightarrow> False | Some cm \<Rightarrow> el cm [i, j] = 0)
           then large_neg_value dt else el logits [bi, h, i, j]))"
  using mha_forward_structure[OF assms, of dt] by blast

theorem attention_logits_and_masks_witness:
  "\<exists>m logits v_proj masked output.
     MultiHeadAttention_init 1 1 (\<lambda>name idx. 1) = Inr m \<and>
     attention_logits_of m (full [1, 2, 1] 1) None = Inr (logits, v_proj) \<and>
     apply_mask Float32 logits
       (Some \<lparr>shape = [1, 2], el = (\<lambda>idx. if idx = [0, 1] then 0 else (1::int))\<rparr>) None
       = Inr masked \<and>
     MultiHeadAttention_forward m Float32 (full [1, 2, 1] 1) None
       (Some \<lparr>shape = [1, 2], el = (\<lambda>idx. if idx = [0, 1] then 0 else (1::int))\<rparr>) None
       = Inr (output, softmax_last masked) \<and>
     el logits [0, 0, 0, 0] = 1 \<and> el masked [0, 0, 0, 0] = 1 \<and>
     el masked [0, 0, 0, 1] = - 9000000000000000"
proof -
  let ?pm = "\<lparr>shape = [1, 2], el = (\<lambda>idx. if idx = [0, 1] then 0 else (1::int))\<rparr>"
  obtain m where m: "MultiHeadAttention_init 1 1 (\<lambda>name idx. 1) = Inr m"
    using MultiHeadAttention_init_Inr[of 1 1] by auto
  have inv: "MultiHeadAttention_inv 1 m"
    using MultiHeadAttention_init_inv[OF m] by simp
  have nh: "mha_num_heads m = 1" "mha_d_head m = 1"
    using MultiHeadAttention_init_heads[OF m] by simp_all
  have w: "w_q m = \<lparr>in_features = 1, out_features = 1,
                 weight = \<lparr>shape = [1, 1], el = (\<lambda>idx. 1)\<rparr>, bias = full [1] 0\<rparr>"
      "w_k m = \<lparr>in_features = 1, out_features = 1,
                 weight = \<lparr>shape = [1, 1], el = (\<lambda>idx. 1)\<rparr>, bias = full [1] 0\<rparr>"
    using MultiHeadAttention_init_weights[OF m] by simp_all
  from attention_logits_and_masks[OF inv, of "full [1, 2, 1] 1" 1 2 None 2 "Some ?pm" None Float32]
  obtain logits v_proj masked outp where
    s: "attention_logits_of m (full [1, 2, 1] 1) None = Inr (logits, v_proj)"
      "apply_mask Float32 logits (Some ?pm) None = Inr masked"
      "MultiHeadAttention_forward m Float32 (full [1, 2, 1] 1) None (Some ?pm) None
         = Inr (outp, softmax_last masked)"
    and e: "\<forall>bi<1. \<forall>h<nat (mha_num_heads m). \<forall>i<2. \<forall>j<2.
        el logits [bi, h, i, j] =
          (\<Sum>c<nat (mha_d_head m).
             el (split_heads (nat (mha_num_heads m)) (nat (mha_d_head m))
                   (linear (w_q m) (full [1, 2, 1] 1))) [bi, h, i, c]
           * el (split_heads (nat (mha_num_heads m)) (nat (mha_d_head m))
                   (linear (w_k m) (case None of None \<Rightarrow> full [1, 2, 1] 1 | Some v \<Rightarrow> v)))
                 [bi, h, j, c])
          / sqrt (real (nat (mha_d_head m))) \<and>
        el masked [bi, h, i, j] =
          (if (case Some ?pm of None \<Rightarrow> False | Some pm \<Rightarrow> el pm [bi, j] = 0) \<or>
              (case None of None \<Rightarrow> False | Some cm \<Rightarrow> el cm [i, j] = 0)
           then large_neg_value Float32 else el logits [bi, h, i, j])"
    by auto
  have l00: "el logits [0, 0, 0, 0] = 1"
    using e[rule_format, of 0 0 0 0] by (simp add: nh w el_linear)
  have m00: "el masked [0, 0, 0, 0] = 1"
    using e[rule_format, of 0 0 0 0] l00 by (simp add: nh)
  have m01: "el masked [0, 0, 0, 1] = - 9000000000000000"
    using e[rule_format, of 0 0 0 1] by (simp add: nh large_neg_value_def)
  show ?thesis using m s l00 m00 m01 by blast
qed

text \<open>
  Claim C4.  In a well-shaped call with at least one key position, the attention weights
  that \<^verbatim>\<open>MultiHeadAttention.forward\<close> returns have the shape
  \<open>[batch, num_heads, seq_len_q, seq_len_k]\<close> and every row sums to 1 along the key axis
  (exactly, over the real numbers).
\<close>

theorem attention_weights_rows:
  assumes "MultiHeadAttention_inv d m"
    and "shape query = [b, lq, d]"
    and "shape (case val of None \<Rightarrow> query | Some v \<Rightarrow> v) = [b, lk, d]"
    and "case padding_mask of None \<Rightarrow> True | Some pm \<Rightarrow> shape pm = [b, lk]"
    and "case causal_mask of None \<Rightarrow> True | Some cm \<Rightarrow> shape cm = [lq, lk]"
    and "0 < lk"
  shows "\<exists>output weights.
     MultiHeadAttention_forward m dt query val padding_mask causal_mask = Inr (output, weights) \<and>
     shape weights = [b, nat (mha_num_heads m), lq, lk] \<and>
     (\<forall>bi<b. \<forall>h<nat (mha_num_heads m). \<forall>i<lq. (\<Sum>j<lk. el weights [bi, h, i, j]) = 1)"
proof -
  from mha_forward_structure[OF assms(1-5), of dt] obtain masked outp where
    f: "MultiHeadAttention_forward m dt query val padding_mask causal_mask
          = Inr (outp, softmax_last masked)"
    and s: "shape masked = [b, nat (mha_num_heads m), lq, lk]"
    by blast
  show ?thesis
    using f s softmax_row_sum[OF s assms(6)] by auto
qed

theorem attention_weights_rows_witness:
  "\<exists>m output weights.
     MultiHeadAttention_init 1 1 (\<lambda>name idx. 1) = Inr m \<and>
     MultiHeadAttention_forward m Float32 (full [1, 2, 1] 1) None
       (Some (full [1, 2] (1::int))) None = Inr (output, weights) \<and>
     shape weights = [1, 1, 2, 2] \<and> (\<Sum>j<2. el weights [0, 0, 1, j]) = 1"
proof -
  obtain m where m: "MultiHeadAttention_init 1 1 (\<lambda>name idx. 1) = Inr m"
    using MultiHeadAttention_init_Inr[of 1 1] by auto
  have inv: "MultiHeadAttention_inv 1 m"
    using MultiHeadAttention_init_inv[OF m] by simp
  have nh: "mha_num_heads m = 1" using MultiHeadAttention_init_heads[OF m] by simp
  from attention_weights_rows[OF inv, of "full [1, 2, 1] 1" 1 2 None 2
      "Some (full [1, 2] (1::int))" None Float32]
  obtain outp weights where
    w: "MultiHeadAttention_forward m Float32 (full [1, 2, 1] 1) None
          (Some (full [1, 2] (1::int))) None = Inr (outp, weights)"
      "shape weights = [1, nat (mha_num_heads m), 2, 2]"
      "\<forall>bi<1. \<forall>h<nat (mha_num_heads m). \<forall>i<2. (\<Sum>j<2. el weights [bi, h, i, j]) = 1"
    by auto
  from w(3) have "(\<Sum>j<2. el weights [0, 0, 1, j]) = 1" by (simp add: nh)
  then show ?thesis using m w(1,2) nh by auto
qed


section \<open>The causal mask\<close>

lemma softmax_le:
  assumes "shape t = [b, n, lq, lk]" "k < lk"
  shows "el (softmax_last t) [bi, h, i, j] \<le> exp (el t [bi, h, i, j] - el t [bi, h, i, k])"
proof -
  have "exp (el t [bi, h, i, k]) \<le> (\<Sum>j<lk. exp (el t [bi, h, i, j]))"
    using assms(2) by (intro member_le_sum) auto
  then have "exp (el t [bi, h, i, j]) / (\<Sum>j<lk. exp (el t [bi, h, i, j]))
               \<le> exp (el t [bi, h, i, j]) / exp (el t [bi, h, i, k])"
    by (intro divide_left_mono) (auto intro: mult_pos_pos less_le_trans[OF exp_gt_zero])
  then show ?thesis by (simp add: el_softmax_last assms(1) exp_diff)
qed

lemma Encoder_init_causal:
  assumes "Encoder_init num_layers num_heads d_model dropout seq_len True rnd = Inr enc"
  shows "\<exists>cm. causal_mask_tensor enc = Some cm \<and> shape cm = [nat seq_len, nat seq_len] \<and>
     (\<forall>i j. el cm [i, j] = (if j \<le> i then 1 else 0))"
  using assms
  by (auto simp: Encoder_init_def bindE_eq_Inr torch_ones_def torch_triu_def split: if_splits)

lemma EncoderBlock_init_mha:
  "EncoderBlock_init d_model num_heads d_ff dropout rnd = Inr blk \<Longrightarrow>
   MultiHeadAttention_init num_heads d_model rnd = Inr (multi_head_attention blk)"
  by (auto simp: EncoderBlock_init_def bindE_eq_Inr)

lemma Encoder_init_blocks:
  "Encoder_init num_layers num_heads d_model dropout seq_len causal rnd = Inr enc \<Longrightarrow>
   build_blocks [0..<nat num_layers] d_model num_heads dropout rnd = Inr (encoders enc)"
  by (auto simp: Encoder_init_def bindE_eq_Inr split: if_splits)

lemma Encoder_init_one_layer:
  assumes "Encoder_init 1 num_heads d_model dropout seq_len causal rnd = Inr enc"
  shows "\<exists>blk. encoders enc = [blk] \<and>
     MultiHeadAttention_init num_heads d_model (rnd 0) = Inr (multi_head_attention blk)"
proof -
  from Encoder_init_blocks[OF assms] obtain blk where
    b: "EncoderBlock_init d_model num_heads (2 * d_model) dropout (rnd 0) = Inr blk"
      "[blk] = encoders enc"
    by (auto simp: bindE_eq_Inr)
  show ?thesis using EncoderBlock_init_mha[OF b(1)] b(2)[symmetric] by blast
qed

lemma Encoder_init_Inr_example:
  "\<exists>enc. Encoder_init 1 1 1 0 2 causal rnd = Inr enc"
  by (simp add: Encoder_init_def EncoderBlock_init_def MultiHeadAttention_init_def
      nn_Linear_Inr MultiHeadAttention_reset_parameters_def reset_linear_Inr
      nn_LayerNorm_def nn_Dropout_def torch_ones_def torch_triu_def)

text \<open>
  Claim C5, amended.  In causal mode the mask built by \<^verbatim>\<open>Encoder.__init__\<close> is the
  \<open>seq_len\<close> by \<open>seq_len\<close> matrix with entry \<open>[i, j]\<close> equal to 1 when \<open>j \<le> i\<close> and 0
  otherwise.  With this mask the logit of every key position \<open>j > i\<close> of the query
  position \<open>i\<close> is the finite constant \<open>large_neg_value\<close>, so its weight is at most
  \<open>exp (large_neg_value - l)\<close> for every logit \<open>l\<close> of the row at a key position
  \<open>k \<le> i\<close> that the padding mask keeps: the weight beyond column \<open>i\<close> is small as long
  as such a logit lies well above the constant.
\<close>

theorem causal_mask_and_weight_bound:
  assumes "Encoder_init num_layers num_heads d_model dropout seq_len True rnd = Inr enc"
    and "MultiHeadAttention_inv d m"
    and "shape query = [b, nat seq_len, d]"
    and "case padding_mask of None \<Rightarrow> True | Some pm \<Rightarrow> shape pm = [b, nat seq_len]"
  shows "\<exists>cm logits v_proj output weights.
     causal_mask_tensor enc = Some cm \<and> shape cm = [nat seq_len, nat seq_len] \<and>
     (\<forall>i<nat seq_len. \<forall>j<nat seq_len. el cm [i, j] = (if j \<le> i then 1 else 0)) \<and>
     attention_logits_of m query None = Inr (logits, v_proj) \<and>
     MultiHeadAttention_forward m dt query None padding_mask (Some cm) = Inr (output, weights) \<and>
     (\<forall>bi<b. \<forall>h<nat (mha_num_heads m). \<forall>i<nat seq_len. \<forall>j<nat seq_len. \<forall>k\<le>i.
        i < j \<longrightarrow> (case padding_mask of None \<Rightarrow> True | Some pm \<Rightarrow> el pm [bi, k] \<noteq> 0) \<longrightarrow>
        el weights [bi, h, i, j] \<le> exp (large_neg_value dt - el logits [bi, h, i, k]))"
proof -
  let ?n = "nat seq_len" and ?H = "nat (mha_num_heads m)"
  from Encoder_init_causal[OF assms(1)] obtain cm where
    cm: "causal_mask_tensor enc = Some cm" "shape cm = [?n, ?n]"
      "\<And>i j. el cm [i, j] = (if j \<le> i then 1 else 0)"
    by blast
  have q: "shape (case None of None \<Rightarrow> query | Some v \<Rightarrow> v) = [b, ?n, d]"
    using assms(3) by simp
  have c: "case Some cm of None \<Rightarrow> True | Some cm \<Rightarrow> shape cm = [?n, ?n]"
    using cm(2) by simp
  from mha_forward_structure[OF assms(2,3) q assms(4) c, of dt]
  obtain logits v_proj masked outp where
    s: "attention_logits_of m query None = Inr (logits, v_proj)"
      "MultiHeadAttention_forward m dt query None padding_mask (Some cm)
         = Inr (outp, softmax_last masked)"
      "shape masked = [b, ?H, ?n, ?n]"
    and e: "\<forall>bi<b. \<forall>h<?H. \<forall>i<?n. \<forall>j<?n.
        el masked [bi, h, i, j] =
          (if (case padding_mask of None \<Rightarrow> False | Some pm \<Rightarrow> el pm [bi, j] = 0) \<or>
              (case Some cm of None \<Rightarrow> False | Some cm \<Rightarrow> el cm [i, j] = 0)
           then large_neg_value dt else el logits [bi, h, i, j])"
    by blast
  have bound: "el (softmax_last masked) [bi, h, i, j]
                 \<le> exp (large_neg_value dt - el logits [bi, h, i, k])"
    if "bi < b" "h < ?H" "i < ?n" "j < ?n" "k \<le> i" "i < j"
      "case padding_mask of None \<Rightarrow> True | Some pm \<Rightarrow> el pm [bi, k] \<noteq> 0"
    for bi h i j k
  proof -
    have k: "k < ?n" using that by simp
    have mj: "el masked [bi, h, i, j] = large_neg_value dt"
      using e that cm(3) by simp
    have mk: "el masked [bi, h, i, k] = el logits [bi, h, i, k]"
      using e that k cm(3) by (auto split: option.splits)
    show ?thesis using softmax_le[OF s(3) k, of bi h i j] by (simp add: mj mk)
  qed
  show ?thesis
    using cm s(1,2) bound
    by (intro exI[of _ cm] exI[of _ logits] exI[of _ v_proj] exI[of _ outp]
        exI[of _ "softmax_last masked"]) simp
qed

theorem causal_mask_and_weight_bound_witness:
  "\<exists>enc m cm logits v_proj output weights.
     Encoder_init 1 1 1 0 2 True (\<lambda>l name idx. 1) = Inr enc \<and>
     MultiHeadAttention_init 1 1 (\<lambda>name idx. 1) = Inr m \<and>
     causal_mask_tensor enc = Some cm \<and> shape cm = [2, 2] \<and>
     el cm [0, 0] = 1 \<and> el cm [0, 1] = 0 \<and> el cm [1, 0] = 1 \<and> el cm [1, 1] = 1 \<and>
     attention_logits_of m (full [1, 2, 1] 1) None = Inr (logits, v_proj) \<and>
     MultiHeadAttention_forward m Float32 (full [1, 2, 1] 1) None
       (None :: int tensor option) (Some cm) = Inr (output, weights) \<and>
     el weights [0, 0, 0, 1] \<le> exp (large_neg_value Float32 - el logits [0, 0, 0, 0])"
proof -
  obtain enc where enc: "Encoder_init 1 1 1 0 2 True (\<lambda>l name idx. 1) = Inr enc"
    using Encoder_init_Inr_example by blast
  obtain m where m: "MultiHeadAttention_init 1 1 (\<lambda>name idx. 1) = Inr m"
    using MultiHeadAttention_init_Inr[of 1 1] by auto
  have inv: "MultiHeadAttention_inv 1 m"
    using MultiHeadAttention_init_inv[OF m] by simp
  have nh: "mha_num_heads m = 1"
    using MultiHeadAttention_init_heads[OF m] by simp
  from causal_mask_and_weight_bound[OF enc inv, of "full [1, 2, 1] 1" 1
      "None :: int tensor option" Float32]
  obtain cm logits v_proj outp weights where
    s: "causal_mask_tensor enc = Some cm" "shape cm = [nat 2, nat 2]"
      "attention_logits_of m (full [1, 2, 1] 1) None = Inr (logits, v_proj)"
      "MultiHeadAttention_forward m Float32 (full [1, 2, 1] 1) None
         (None :: int tensor option) (Some cm) = Inr (outp, weights)"
    and c: "\<forall>i<nat 2. \<forall>j<nat 2. el cm [i, j] = (if j \<le> i then 1 else 0)"
    and b: "\<forall>bi<1. \<forall>h<nat (mha_num_heads m). \<forall>i<nat 2. \<forall>j<nat 2. \<forall>k\<le>i.
        i < j \<longrightarrow> (case (None :: int tensor option) of None \<Rightarrow> True
                    | Some pm \<Rightarrow> el pm [bi, k] \<noteq> 0) \<longrightarrow>
        el weights [bi, h, i, j] \<le> exp (large_neg_value Float32 - el logits [bi, h, i, k])"
    by auto
  have c4: "el cm [0, 0] = 1" "el cm [0, 1] = 0" "el cm [1, 0] = 1" "el cm [1, 1] = 1"
    using c by simp_all
  have "el weights [0, 0, 0, 1] \<le> exp (large_neg_value Float32 - el logits [0, 0, 0, 0])"
    using b[rule_format, of 0 0 0 1 0] by (simp add: nh)
  then show ?thesis using enc m s c4 by auto
qed

lemma half_le_dominant:
  fixes a b :: real
  assumes "0 < a" "0 < b" "b \<le> a"
  shows "1 / 2 \<le> a / (b + a)"
proof -
  have "0 < b + a" using assms by simp
  then show ?thesis using assms by (simp add: pos_le_divide_eq)
qed

text \<open>
  Claim C5 as stated does not hold: the fill value is finite, so the weight beyond
  column \<open>i\<close> is not small whatever the weights are.  In half precision the fill value
  is \<open>-10000\<close>; with the input \<open>100\<close> at both positions and the query and key weights
  \<open>3/2\<close> and \<open>-3/2\<close> the only causal logit of the query position 0 is \<open>-22500\<close>, and
  the masked key position 1 receives at least half of the weight.
\<close>

theorem causal_weight_not_small:
  "\<exists>enc blk cm output weights.
     Encoder_init 1 1 1 0 2 True
       (\<lambda>l name idx. if name = ''xavier.w_q'' then 3 / 2
                      else if name = ''xavier.w_k'' then - (3 / 2) else 0) = Inr enc \<and>
     encoders enc = [blk] \<and> causal_mask_tensor enc = Some cm \<and>
     MultiHeadAttention_forward (multi_head_attention blk) Float16 (full [1, 2, 1] 100) None
       (None :: int tensor option) (Some cm) = Inr (output, weights) \<and>
     1 / 2 \<le> el weights [0, 0, 0, 1]"
proof -
  let ?rnd = "\<lambda>(l::nat) name (idx::nat list). if name = ''xavier.w_q'' then 3 / 2
                else if name = ''xavier.w_k'' then - (3 / 2) else (0::real)"
  let ?x = "full [1, 2, 1] (100::real)"
  obtain enc where enc: "Encoder_init 1 1 1 0 2 True ?rnd = Inr enc"
    using Encoder_init_Inr_example by blast
  from Encoder_init_one_layer[OF enc] obtain blk where
    blk: "encoders enc = [blk]"
      "MultiHeadAttention_init 1 1 (?rnd 0) = Inr (multi_head_attention blk)"
    by blast
  let ?m = "multi_head_attention blk"
  from Encoder_init_causal[OF enc] obtain cm where
    cm: "causal_mask_tensor enc = Some cm" "shape cm = [nat 2, nat 2]"
      "\<And>i j. el cm [i, j] = (if j \<le> i then 1 else 0)"
    by blast
  have inv: "MultiHeadAttention_inv 1 ?m"
    using MultiHeadAttention_init_inv[OF blk(2)] by simp
  have nh: "mha_num_heads ?m = 1" "mha_d_head ?m = 1"
    using MultiHeadAttention_init_heads[OF blk(2)] by simp_all
  have w: "w_q ?m = \<lparr>in_features = 1, out_features = 1,
                 weight = \<lparr>shape = [1, 1], el = (\<lambda>idx. 3 / 2)\<rparr>, bias = full [1] 0\<rparr>"
      "w_k ?m = \<lparr>in_features = 1, out_features = 1,
                 weight = \<lparr>shape = [1, 1], el = (\<lambda>idx. - (3 / 2))\<rparr>, bias = full [1] 0\<rparr>"
    using MultiHeadAttention_init_weights[OF blk(2)] by simp_all
  have q: "shape ?x = [1, 2, 1]" "shape (case None of None \<Rightarrow> ?x | Some v \<Rightarrow> v) = [1, 2, 1]"
    by simp_all
  have p: "case (None :: int tensor option) of None \<Rightarrow> True | Some pm \<Rightarrow> shape pm = [1, 2]"
    by simp
  have c: "case Some cm of None \<Rightarrow> True | Some cm \<Rightarrow> shape cm = [2, 2]"
    using cm(2) by simp
  from mha_forward_structure[OF inv q p c, of Float16]
  obtain logits v_proj masked outp where
    lg: "attention_logits_of ?m ?x None = Inr (logits, v_proj)"
    and f: "MultiHeadAttention_forward ?m Float16 ?x None (None :: int tensor option) (Some cm)
          = Inr (outp, softmax_last masked)"
    and sm: "shape masked = [1, nat (mha_num_heads ?m), 2, 2]"
    and e: "\<forall>bi<1. \<forall>h<nat (mha_num_heads ?m). \<forall>i<2. \<forall>j<2.
        el logits [bi, h, i, j] =
          (\<Sum>c<nat (mha_d_head ?m).
             el (split_heads (nat (mha_num_heads ?m)) (nat (mha_d_head ?m))
                   (linear (w_q ?m) ?x)) [bi, h, i, c]
           * el (split_heads (nat (mha_num_heads ?m)) (nat (mha_d_head ?m))
                   (linear (w_k ?m) (case None of None \<Rightarrow> ?x | Some v \<Rightarrow> v))) [bi, h, j, c])
          / sqrt (real (nat (mha_d_head ?m))) \<and>
        el masked [bi, h, i, j] =
          (if (case (None :: int tensor option) of None \<Rightarrow> False
               | Some pm \<Rightarrow> el pm [bi, j] = 0) \<or>
              (case Some cm of None \<Rightarrow> False | Some cm \<Rightarrow> el cm [i, j] = 0)
           then large_neg_value Float16 else el logits [bi, h, i, j])"
    by (elim exE conjE) (rule that; assumption)
  have l00: "el logits [0, 0, 0, 0] = - 22500"
    using e[rule_format, of 0 0 0 0] by (simp add: nh w el_linear)
  have m00: "el masked [0, 0, 0, 0] = - 22500"
    using e[rule_format, of 0 0 0 0] l00 by (simp add: nh cm(3))
  have m01: "el masked [0, 0, 0, 1] = - 10000"
    using e[rule_format, of 0 0 0 1] by (simp add: nh cm(3) large_neg_value_def)
  have "el (softmax_last masked) [0, 0, 0, 1]
          = exp (- 10000) / (exp (- 22500) + exp (- 10000))"
    by (simp add: el_softmax_last sm nh m00 m01[unfolded One_nat_def] numeral_2_eq_2)
  moreover have "1 / 2 \<le> exp (- 10000 :: real) / (exp (- 22500) + exp (- 10000))"
    by (rule half_le_dominant) simp_all
  ultimately have "1 / 2 \<le> el (softmax_last masked) [0, 0, 0, 1]"
    by simp
  then show ?thesis using enc blk(1) cm(1) f by blast
qed

section \<open>The encoder block\<close>

lemma LayerNorm_forward_Inr:
  "normalized_shape m = d \<Longrightarrow> shape x = s @ [d] \<Longrightarrow> LayerNorm_forward m x = Inr (layer_norm m x)"
  by (simp add: LayerNorm_forward_def)

lemma bindE_Inr_right [simp]: "bindE m Inr = m"
  by (cases m) auto

lemma Sequential_forward_Nil [simp]: "Sequential_forward [] training keeps k = Inr"
  by (rule ext) simp

lemma block_refines_spec:
  assumes "pff blk = [LinearL l1, DropoutL dp, ReLUL, LinearL l2]"
  shows "EncoderBlock_forward blk training draws dt x causal_mask msk =
         spec_EncoderBlock blk l1 dp l2 training draws dt x causal_mask msk"
proof (cases "MultiHeadAttention_forward (multi_head_attention blk) dt x None msk causal_mask")
  case (Inl e)
  then show ?thesis
    by (simp add: EncoderBlock_forward_def spec_EncoderBlock_def spec_attention_sublayer_def
        spec_SelfAttention_def)
next
  case (Inr r)
  obtain a w where r: "r = (a, w)" by (cases r)
  show ?thesis
  proof (cases "tensor_binop (+) x (Dropout_forward (dropout1 blk) training (draw1 draws) a)")
    case Inl
    then show ?thesis using Inr r
      by (simp add: EncoderBlock_forward_def spec_EncoderBlock_def spec_attention_sublayer_def
          spec_SelfAttention_def)
  next
    case x1: (Inr x1)
    show ?thesis
    proof (cases "LayerNorm_forward (norm1 blk) x1")
      case Inl
      then show ?thesis using Inr r x1
        by (simp add: EncoderBlock_forward_def spec_EncoderBlock_def spec_attention_sublayer_def
            spec_SelfAttention_def)
    next
      case x2: (Inr x2)
      have "Sequential_forward (pff blk) training (draw_pff draws) 0 x2 =
              bindE (Linear_forward l1 x2) (\<lambda>h.
              Linear_forward l2
                (ReLU_forward (Dropout_forward dp training (draw_pff draws 1) h)))"
        by (cases "Linear_forward l1 x2") (simp_all add: assms)
      then show ?thesis using Inr r x1 x2
        by (cases "Linear_forward l1 x2")
           (simp_all add: EncoderBlock_forward_def spec_EncoderBlock_def
            spec_attention_sublayer_def spec_SelfAttention_def spec_feed_forward_sublayer_def)
    qed
  qed
qed

lemma block_forward_shape:
  assumes inv: "EncoderBlock_inv d d_ff blk"
    and x: "shape x = [b, l, d]"
    and p: "case msk of None \<Rightarrow> True | Some pm \<Rightarrow> shape pm = [b, l]"
    and c: "case causal_mask of None \<Rightarrow> True | Some cm \<Rightarrow> shape cm = [l, l]"
  shows "\<exists>y. EncoderBlock_forward blk training draws dt x causal_mask msk = Inr y \<and>
     shape y = shape x"
proof -
  from inv obtain l1 dp l2 where
    pf: "pff blk = [LinearL l1, DropoutL dp, ReLUL, LinearL l2]"
    and li: "Linear_inv d d_ff l1" "Linear_inv d_ff d l2"
    and mi: "MultiHeadAttention_inv d (multi_head_attention blk)"
    and n: "normalized_shape (norm1 blk) = d" "normalized_shape (norm2 blk) = d"
    by (auto simp: EncoderBlock_inv_def)
  have v: "shape (case None of None \<Rightarrow> x | Some v \<Rightarrow> v) = [b, l, d]" using x by simp
  from mha_forward_structure[OF mi x v p c, of dt] obtain a w where
    f: "MultiHeadAttention_forward (multi_head_attention blk) dt x None msk causal_mask
          = Inr (a, w)"
    and sa: "shape a = [b, l, d]"
    by blast
  let ?x1 = "broadcast_map (+) [b, l, d] x
               (Dropout_forward (dropout1 blk) training (draw1 draws) a)"
  have x1: "tensor_binop (+) x (Dropout_forward (dropout1 blk) training (draw1 draws) a)
              = Inr ?x1"
    by (rule tensor_binop_Inr) (simp add: x sa)
  let ?x2 = "layer_norm (norm1 blk) ?x1"
  have x2: "LayerNorm_forward (norm1 blk) ?x1 = Inr ?x2"
    by (rule LayerNorm_forward_Inr[OF n(1), of _ "[b, l]"]) simp
  have s2: "shape ?x2 = [b, l] @ [d]" by simp
  let ?h = "linear l1 ?x2"
  have h: "Linear_forward l1 ?x2 = Inr ?h" by (rule Linear_forward_Inr[OF li(1) s2])
  have sh: "shape ?h = [b, l] @ [d_ff]" by (rule shape_linear_inv[OF li(1) s2])
  let ?r = "ReLU_forward (Dropout_forward dp training (draw_pff draws (Suc 0)) ?h)"
  have sr: "shape ?r = [b, l] @ [d_ff]" using sh by simp
  let ?f = "linear l2 ?r"
  have ff: "Linear_forward l2 ?r = Inr ?f" by (rule Linear_forward_Inr[OF li(2) sr])
  have sf: "shape ?f = [b, l] @ [d]" by (rule shape_linear_inv[OF li(2) sr])
  have sq: "Sequential_forward (pff blk) training (draw_pff draws) 0 ?x2 = Inr ?f"
    by (simp add: pf h ff del: shape_linear)
  let ?x3 = "broadcast_map (+) [b, l, d] ?x2
               (Dropout_forward (dropout2 blk) training (draw2 draws) ?f)"
  have x3: "tensor_binop (+) ?x2 (Dropout_forward (dropout2 blk) training (draw2 draws) ?f)
              = Inr ?x3"
    by (rule tensor_binop_Inr) (use sf in \<open>simp del: shape_linear\<close>)
  have y: "LayerNorm_forward (norm2 blk) ?x3 = Inr (layer_norm (norm2 blk) ?x3)"
    by (rule LayerNorm_forward_Inr[OF n(2), of _ "[b, l]"]) simp
  have "EncoderBlock_forward blk training draws dt x causal_mask msk
          = Inr (layer_norm (norm2 blk) ?x3)"
    unfolding EncoderBlock_forward_def by (simp add: f x1 x2 sq x3 y del: shape_linear)
  then show ?thesis by (simp add: x)
qed


lemma EncoderBlock_init_inv:
  assumes "EncoderBlock_init d_model num_heads d_ff dropout rnd = Inr blk"
    and "0 < d_model" "0 < num_heads"
  shows "EncoderBlock_inv (nat d_model) (nat d_ff) blk"
proof -
  from assms(1) obtain mha n1 d1 l1 dp l2 n2 d2 where
    m: "MultiHeadAttention_init num_heads d_model rnd = Inr mha"
    and n: "nn_LayerNorm d_model = Inr n1" "nn_LayerNorm d_model = Inr n2"
    and l: "nn_Linear d_model d_ff (rnd ''pff.0.weight'') (rnd ''pff.0.bias'') = Inr l1"
      "nn_Linear d_ff d_model (rnd ''pff.3.weight'') (rnd ''pff.3.bias'') = Inr l2"
    and b: "blk = \<lparr>multi_head_attention = mha, norm1 = n1, dropout1 = d1,
          pff = [LinearL l1, DropoutL dp, ReLUL, LinearL l2],
          norm2 = n2, dropout2 = d2\<rparr>"
    unfolding EncoderBlock_init_def bindE_eq_Inr by blast
  have "Linear_inv (nat d_model) (nat d_ff) l1" "Linear_inv (nat d_ff) (nat d_model) l2"
    using l by (auto simp: nn_Linear_def Linear_inv_def split: if_splits)
  moreover have "normalized_shape n1 = nat d_model" "normalized_shape n2 = nat d_model"
    using n by (auto simp: nn_LayerNorm_def split: if_splits)
  ultimately show ?thesis
    using MultiHeadAttention_init_inv[OF m assms(2,3)] by (simp add: EncoderBlock_inv_def b)
qed

text \<open>
  Claim C7.  For a block with the layers that \<^verbatim>\<open>EncoderBlock.__init__\<close> builds and a
  well-shaped input, \<^verbatim>\<open>EncoderBlock.forward\<close> succeeds and computes exactly
  \<open>x' = LayerNorm(x + Dropout(SelfAttention(x, causal_mask, padding_mask)))\<close> followed by
  \<open>x'' = LayerNorm(x' + Dropout(Linear2(ReLU(Dropout(Linear1(x'))))))\<close>: the feed-forward
  part is the sequence linear, dropout, ReLU, linear, so the ReLU comes after the inner
  dropout and before the second linear layer.  The output has the shape of the input.
\<close>

theorem encoder_block_forward_formula:
  assumes "EncoderBlock_inv d d_ff blk"
    and "shape x = [b, l, d]"
    and "case msk of None \<Rightarrow> True | Some pm \<Rightarrow> shape pm = [b, l]"
    and "case causal_mask of None \<Rightarrow> True | Some cm \<Rightarrow> shape cm = [l, l]"
  shows "\<exists>linear1 inner_dropout linear2 y.
     pff blk = [LinearL linear1, DropoutL inner_dropout, ReLUL, LinearL linear2] \<and>
     EncoderBlock_forward blk training draws dt x causal_mask msk =
       spec_EncoderBlock blk linear1 inner_dropout linear2 training draws dt x causal_mask msk \<and>
     EncoderBlock_forward blk training draws dt x causal_mask msk = Inr y \<and>
     shape y = shape x"
proof -
  from assms(1) obtain l1 dp l2 where
    pf: "pff blk = [LinearL l1, DropoutL dp, ReLUL, LinearL l2]"
    by (auto simp: EncoderBlock_inv_def)
  from block_forward_shape[OF assms, of training draws dt] obtain y where
    y: "EncoderBlock_forward blk training draws dt x causal_mask msk = Inr y" "shape y = shape x"
    by blast
  show ?thesis
    using pf y block_refines_spec[OF pf, of training draws dt x causal_mask msk] by metis
qed

theorem encoder_block_forward_formula_witness:
  "\<exists>blk linear1 inner_dropout linear2 y.
     EncoderBlock_init 1 1 2 0 (\<lambda>name idx. 1) = Inr blk \<and>
     pff blk = [LinearL linear1, DropoutL inner_dropout, ReLUL, LinearL linear2] \<and>
     EncoderBlock_forward blk False
         \<lparr>draw1 = (\<lambda>idx. True), draw_pff = (\<lambda>k idx. True), draw2 = (\<lambda>idx. True)\<rparr>
         Float32 (full [1, 2, 1] 1) None (None :: int tensor option) =
       spec_EncoderBlock blk linear1 inner_dropout linear2 False
         \<lparr>draw1 = (\<lambda>idx. True), draw_pff = (\<lambda>k idx. True), draw2 = (\<lambda>idx. True)\<rparr>
         Float32 (full [1, 2, 1] 1) None (None :: int tensor option) \<and>
     EncoderBlock_forward blk False
         \<lparr>draw1 = (\<lambda>idx. True), draw_pff = (\<lambda>k idx. True), draw2 = (\<lambda>idx. True)\<rparr>
         Float32 (full [1, 2, 1] 1) None (None :: int tensor option) = Inr y \<and>
     shape y = [1, 2, 1]"
proof -
  have "\<exists>blk. EncoderBlock_init 1 1 2 0 (\<lambda>name idx. 1) = Inr blk"
    by (simp add: EncoderBlock_init_def MultiHeadAttention_init_def
        nn_Linear_Inr MultiHeadAttention_reset_parameters_def reset_linear_Inr
        nn_LayerNorm_def nn_Dropout_def)
  then obtain blk where blk: "EncoderBlock_init 1 1 2 0 (\<lambda>name idx. 1) = Inr blk" ..
  have inv: "EncoderBlock_inv 1 2 blk" using EncoderBlock_init_inv[OF blk] by simp
  have x: "shape (full [1, 2, 1] (1::real)) = [1, 2, 1]" by simp
  have p: "case (None :: int tensor option) of None \<Rightarrow> True | Some pm \<Rightarrow> shape pm = [1, 2]"
    by simp
  have c: "case (None :: real tensor option) of None \<Rightarrow> True | Some cm \<Rightarrow> shape cm = [2, 2]"
    by simp
  show ?thesis
    using blk encoder_block_forward_formula[OF inv x p c, of False
        "\<lparr>draw1 = (\<lambda>idx. True), draw_pff = (\<lambda>k idx. True), draw2 = (\<lambda>idx. True)\<rparr>" Float32]
    by (elim exE conjE) (intro exI conjI; (assumption | simp))
qed

section \<open>The embedding\<close>

lemma set_indices2: "set (indices [b, l]) = {[bi, i] | bi i. bi < b \<and> i < l}"
  by auto

lemma bc_batch1 [simp]: "broadcast_shapes [b, l, d] [Suc 0, l, d] = Some [b, l, d]"
  by (simp add: broadcast_shapes_def)

lemma bindex_full3 [simp]:
  "bi < b \<Longrightarrow> i < l \<Longrightarrow> c < d \<Longrightarrow> bindex [b, l, d] [bi, i, c] = [bi, i, c]"
  by (simp add: bindex_def)

lemma bindex_batch1 [simp]:
  "i < l \<Longrightarrow> c < d \<Longrightarrow> bindex [Suc 0, l, d] [bi, i, c] = [0, i, c]"
  by (simp add: bindex_def)

lemma PositionalEncoding_init_shape:
  assumes "PositionalEncoding_init seq_length d_model = Inr p"
  shows "shape (pe p) = [1, nat seq_length, nat d_model]"
proof -
  have "0 \<le> seq_length \<and> 0 < d_model"
    using assms
    by (auto simp: PositionalEncoding_init_def PositionalEncoding_reset_parameters_def
        torch_zeros_def torch_arange_def bindE_eq_Inr split: if_splits)
  then show ?thesis
    using reset_parameters_table[of seq_length d_model] assms
    by (auto simp: PositionalEncoding_init_def bindE_eq_Inr)
qed

lemma nn_Embedding_init_shape:
  "nn_Embedding_init n d pad draw = Inr e \<Longrightarrow> shape (emb_weight e) = [nat n, nat d]"
  by (auto simp: nn_Embedding_init_def fill_row_zero_def split: option.splits if_splits)

lemma Embedding_init_inv:
  assumes "Embedding_init d_model vocab_size seq_length enable_padding draw = Inr m"
  shows "Embedding_inv (nat vocab_size) (nat d_model) (nat seq_length) m"
  using assms
  by (auto simp: Embedding_init_def Embedding_inv_def bindE_eq_Inr
      dest!: nn_Embedding_init_shape PositionalEncoding_init_shape split: if_splits)

lemma Embedding_forward_structure:
  assumes "Embedding_inv vocab d s m"
    and "shape x = [b, l]" and "l \<le> s"
    and "\<forall>bi<b. \<forall>i<l. 0 \<le> el x [bi, i] \<and> el x [bi, i] < int vocab"
  shows "\<exists>y. Embedding_forward m x = Inr y \<and> shape y = [b, l, d] \<and>
     (\<forall>bi<b. \<forall>i<l. \<forall>c<d.
        el y [bi, i, c] =
          el (emb_weight (embeddings m)) [nat (el x [bi, i]), c]
          + el (pe (positional_embeddings m)) [0, i, c])"
proof -
  have w: "shape (emb_weight (embeddings m)) = [vocab, d]"
    and p: "shape (pe (positional_embeddings m)) = [1, s, d]"
    using assms(1) by (auto simp: Embedding_inv_def)
  have ok: "\<not> list_ex (\<lambda>idx. el x idx < 0 \<or> int vocab \<le> el x idx) (indices [b, l])"
    using assms(4) unfolding list_ex_iff set_indices2 by fastforce
  have lk: "nn_Embedding_forward (embeddings m) x = Inr (lookup (embeddings m) x)"
    using ok by (simp add: nn_Embedding_forward_def w assms(2))
  have ps: "PositionalEncoding_forward (positional_embeddings m) x
              = Inr (first_rows l (pe (positional_embeddings m)))"
    by (simp add: PositionalEncoding_forward_def getitem_rows_def assms(2) p)
  have sp: "shape (first_rows l (pe (positional_embeddings m))) = [Suc 0, l, d]"
    using assms(3) by (simp add: p min_def)
  have sl: "shape (lookup (embeddings m) x) = [b, l, d]"
    by (simp add: assms(2) w)
  let ?y = "broadcast_map (+) [b, l, d] (lookup (embeddings m) x)
              (first_rows l (pe (positional_embeddings m)))"
  have "tensor_binop (+) (lookup (embeddings m) x)
          (first_rows l (pe (positional_embeddings m))) = Inr ?y"
    by (rule tensor_binop_Inr) (simp only: sl sp bc_batch1)
  then have run: "Embedding_forward m x = Inr ?y"
    by (simp add: Embedding_forward_def lk ps)
  have "el ?y [bi, i, c] =
          el (emb_weight (embeddings m)) [nat (el x [bi, i]), c]
          + el (pe (positional_embeddings m)) [0, i, c]"
    if "bi < b" "i < l" "c < d" for bi i c
    using that by (simp add: sl sp el_lookup del: shape_lookup shape_first_rows)
  then show ?thesis using run by simp
qed

text \<open>
  Claim C8.  For token ids of shape \<open>[batch, seq_len]\<close> that are rows of the table, with
  \<open>seq_len\<close> at most the length of the positional table, \<^verbatim>\<open>Embedding.forward\<close> returns
  a tensor of shape \<open>[batch, seq_len, d_model]\<close>: at \<open>[bi, i, c]\<close> the entry \<open>c\<close> of the
  table row of the id at \<open>[bi, i]\<close> plus the entry \<open>[i, c]\<close> of the positional table, the
  same for every \<open>bi\<close>.
\<close>

theorem embedding_forward_value:
  assumes "Embedding_inv vocab d s m"
    and "shape x = [b, l]" and "l \<le> s"
    and "\<forall>bi<b. \<forall>i<l. 0 \<le> el x [bi, i] \<and> el x [bi, i] < int vocab"
  shows "\<exists>y. Embedding_forward m x = Inr y \<and> shape y = [b, l, d] \<and>
     (\<forall>bi<b. \<forall>i<l. \<forall>c<d.
        el y [bi, i, c] =
          el (emb_weight (embeddings m)) [nat (el x [bi, i]), c]
          + el (pe (positional_embeddings m)) [0, i, c])"
  using assms by (rule Embedding_forward_structure)

theorem embedding_forward_value_witness:
  "\<exists>m y. Embedding_init 1 2 2 False (\<lambda>idx. 1) = Inr m \<and>
     Embedding_forward m (full [1, 2] 1) = Inr y \<and> shape y = [1, 2, 1] \<and>
     el y [0, 1, 0] =
       el (emb_weight (embeddings m)) [1, 0] + el (pe (positional_embeddings m)) [0, 1, 0]"
proof -
  obtain p where p: "PositionalEncoding_init 2 1 = Inr p"
    using reset_parameters_table[of 2 1] by (auto simp: PositionalEncoding_init_def)
  then obtain m where m: "Embedding_init 1 2 2 False (\<lambda>idx. 1) = Inr m"
    by (simp add: Embedding_init_def nn_Embedding_init_def)
  have inv: "Embedding_inv 2 1 2 m" using Embedding_init_inv[OF m] by simp
  have x: "shape (full [1, 2] (1::int)) = [1, 2]" by simp
  from embedding_forward_value[OF inv x, of ] obtain y where
    y: "Embedding_forward m (full [1, 2] 1) = Inr y" "shape y = [1, 2, 1]"
      "\<forall>bi<1. \<forall>i<2. \<forall>c<1.
        el y [bi, i, c] =
          el (emb_weight (embeddings m)) [nat (el (full [1, 2] (1::int)) [bi, i]), c]
          + el (pe (positional_embeddings m)) [0, i, c]"
    by auto
  from y(3) have "el y [0, 1, 0] =
       el (emb_weight (embeddings m)) [1, 0] + el (pe (positional_embeddings m)) [0, 1, 0]"
    by simp
  then show ?thesis using m y(1,2) by blast
qed

section \<open>The padding row under training\<close>

lemma Embedding_init_padding:
  assumes "Embedding_init d_model vocab_size seq_length True draw = Inr m"
  shows "padding_idx (embeddings m) = Some 0" "el (emb_weight (embeddings m)) [0, c] = 0"
  using assms
  by (auto simp: Embedding_init_def nn_Embedding_init_def fill_row_zero_def bindE_eq_Inr
      split: if_splits)

lemma backward_padding_row:
  "padding_idx m = Some r \<Longrightarrow> el (nn_Embedding_backward m x g) [r, c] = 0"
  by (simp add: nn_Embedding_backward_def)

lemma train_step_padding:
  assumes "train_step opt (m, st) batch = Inr (m', st')"
    and "padding_idx (embeddings m) = Some 0"
    and "\<forall>c. el (emb_weight (embeddings m)) [0, c] = 0"
    and "\<forall>c. st [0, c] = zero_state opt n"
    and "snd (opt_step opt (zero_state opt n) 0 0) = 0"
  shows "padding_idx (embeddings m') = Some 0"
    and "\<forall>c. el (emb_weight (embeddings m')) [0, c] = 0"
    and "\<forall>c. st' [0, c] = zero_state opt (Suc n)"
proof -
  obtain x g where b: "batch = (x, g)" by (cases batch)
  from assms(1) obtain y where
    m': "m' = m\<lparr>embeddings := (embeddings m)
                 \<lparr>emb_weight := \<lparr>shape = shape (emb_weight (embeddings m)),
                     el = (\<lambda>idx. snd (opt_step opt (st idx) (el (emb_weight (embeddings m)) idx)
                            (el (nn_Embedding_backward (embeddings m) x g) idx)))\<rparr>\<rparr>\<rparr>"
    and st': "st' = (\<lambda>idx. fst (opt_step opt (st idx) (el (emb_weight (embeddings m)) idx)
                            (el (nn_Embedding_backward (embeddings m) x g) idx)))"
    by (auto simp: train_step_def b bindE_eq_Inr Let_def)
  show "padding_idx (embeddings m') = Some 0" using assms(2) by (simp add: m')
  show "\<forall>c. el (emb_weight (embeddings m')) [0, c] = 0"
    using assms(3,4,5) by (simp add: m' backward_padding_row[OF assms(2)])
  show "\<forall>c. st' [0, c] = zero_state opt (Suc n)"
    using assms(3,4) by (simp add: st' backward_padding_row[OF assms(2)])
qed

lemma train_padding:
  assumes "train opt (m, st) batches = Inr (m', st')"
    and "padding_idx (embeddings m) = Some 0"
    and "\<forall>c. el (emb_weight (embeddings m)) [0, c] = 0"
    and "\<forall>c. st [0, c] = zero_state opt n"
    and "\<forall>n. snd (opt_step opt (zero_state opt n) 0 0) = 0"
  shows "padding_idx (embeddings m') = Some 0 \<and> (\<forall>c. el (emb_weight (embeddings m')) [0, c] = 0)"
  using assms
proof (induction batches arbitrary: m st n)
  case Nil
  then show ?case by simp
next
  case (Cons b bs)
  from Cons.prems(1) obtain m1 st1 where
    s: "train_step opt (m, st) b = Inr (m1, st1)" "train opt (m1, st1) bs = Inr (m', st')"
    by (auto simp: bindE_eq_Inr)
  have z: "snd (opt_step opt (zero_state opt n) 0 0) = 0" using Cons.prems(5) by simp
  note t = train_step_padding[OF s(1) Cons.prems(2,3,4) z]
  show ?case by (rule Cons.IH[OF s(2) t Cons.prems(5)])
qed

text \<open>
  Claim C9.  When \<open>Embedding\<close> is constructed with \<^verbatim>\<open>enable_padding=True\<close>, the table row of
  token id 0 is the zero vector, the gradient of the table is zero in that row for every
  batch and every incoming gradient, and the row is still the zero vector after any
  number of update steps.  The optimizer is any element-wise update rule that leaves an
  element at zero when the element is zero and all its gradients have been zero.
\<close>

theorem padding_row_stays_zero:
  assumes "Embedding_init d_model vocab_size seq_length True draw = Inr m"
    and "\<forall>n. snd (opt_step opt (zero_state opt n) 0 0) = 0"
    and "train opt (m, \<lambda>idx. opt_init opt) batches = Inr (m', st')"
  shows "(\<forall>c. el (emb_weight (embeddings m')) [0, c] = 0) \<and>
     (\<forall>x g c. el (nn_Embedding_backward (embeddings m') x g) [0, c] = 0)"
proof -
  have "padding_idx (embeddings m') = Some 0 \<and> (\<forall>c. el (emb_weight (embeddings m')) [0, c] = 0)"
    by (rule train_padding[OF assms(3) Embedding_init_padding(1)[OF assms(1)], of 0])
       (simp_all add: Embedding_init_padding(2)[OF assms(1)] assms(2))
  then show ?thesis by (simp add: backward_padding_row)
qed

lemma Embedding_init_padding_weight:
  assumes "Embedding_init d_model vocab_size seq_length True draw = Inr m"
  shows "el (emb_weight (embeddings m)) idx = (if hd idx = 0 then 0 else draw idx)"
  using assms
  by (auto simp: Embedding_init_def nn_Embedding_init_def fill_row_zero_def bindE_eq_Inr
      split: if_splits)

lemma Embedding_forward_Inr:
  assumes "Embedding_inv vocab d s m"
    and "shape x = [b, l]" and "l \<le> s"
    and "\<forall>bi<b. \<forall>i<l. 0 \<le> el x [bi, i] \<and> el x [bi, i] < int vocab"
  shows "\<exists>y. Embedding_forward m x = Inr y"
  using Embedding_forward_structure[OF assms] by blast

theorem padding_row_stays_zero_witness:
  "\<exists>m m' st'.
     Embedding_init 1 2 2 True (\<lambda>idx. 1) = Inr m \<and>
     train \<lparr>opt_init = 0, opt_step = (\<lambda>buf p g. (buf * (9 / 10) + g, p - (buf * (9 / 10) + g) / 10))\<rparr>
       (m, \<lambda>idx. 0) [(full [1, 2] 1, full [1, 2, 1] 1)] = Inr (m', st') \<and>
     el (emb_weight (embeddings m')) [0, 0] = 0 \<and>
     el (emb_weight (embeddings m')) [1, 0] = 4 / 5"
proof -
  let ?opt = "\<lparr>opt_init = 0 :: real,
               opt_step = (\<lambda>buf p g. (buf * (9 / 10) + g, p - (buf * (9 / 10) + g) / 10))\<rparr>"
  let ?x = "full [1, 2] (1::int)" and ?g = "full [1, 2, 1] (1::real)"
  obtain p where p: "PositionalEncoding_init 2 1 = Inr p"
    using reset_parameters_table[of 2 1] by (auto simp: PositionalEncoding_init_def)
  then obtain m where m: "Embedding_init 1 2 2 True (\<lambda>idx. 1) = Inr m"
    by (simp add: Embedding_init_def nn_Embedding_init_def)
  have inv: "Embedding_inv 2 1 2 m" using Embedding_init_inv[OF m] by simp
  obtain y where y: "Embedding_forward m ?x = Inr y"
    using Embedding_forward_Inr[OF inv, of ?x 1 2] by auto
  note y' = y[unfolded One_nat_def]
  have z: "zero_state ?opt n = 0" for n by (induction n) simp_all
  have h: "\<forall>n. snd (opt_step ?opt (zero_state ?opt n) 0 0) = 0"
  proof
    fix n show "snd (opt_step ?opt (zero_state ?opt n) 0 0) = 0"
      unfolding z by simp
  qed
  let ?grad = "nn_Embedding_backward (embeddings m) ?x ?g"
  let ?w = "emb_weight (embeddings m)"
  let ?m' = "m\<lparr>embeddings := (embeddings m)
               \<lparr>emb_weight := \<lparr>shape = shape ?w,
                   el = (\<lambda>idx. snd (opt_step ?opt 0 (el ?w idx) (el ?grad idx)))\<rparr>\<rparr>\<rparr>"
  let ?st' = "\<lambda>idx. fst (opt_step ?opt 0 (el ?w idx) (el ?grad idx))"
  have t: "train ?opt (m, \<lambda>idx. 0) [(?x, ?g)] = Inr (?m', ?st')"
    by (simp add: train_step_def y' Let_def)
  have gr: "el ?grad [1, 0] = 2"
    by (simp add: nn_Embedding_backward_def Embedding_init_padding(1)[OF m] numeral_2_eq_2)
  have w: "el (emb_weight (embeddings ?m')) [1, 0] = 4 / 5"
    by (simp add: gr[unfolded One_nat_def] Embedding_init_padding_weight[OF m])
  have "opt_init ?opt = 0" by simp
  then have t': "train ?opt (m, \<lambda>idx. opt_init ?opt) [(?x, ?g)] = Inr (?m', ?st')"
    using t by simp
  from padding_row_stays_zero[OF m h t'] have "el (emb_weight (embeddings ?m')) [0, 0] = 0"
    by blast
  then show ?thesis using m t w by blast
qed

section \<open>The attention weights and the encoder\<close>

lemma mha_forward_value:
  assumes inv: "MultiHeadAttention_inv d m"
    and q: "shape query = [b, lq, d]"
    and v: "shape (case val of None \<Rightarrow> query | Some v \<Rightarrow> v) = [b, lk, d]"
    and l: "attention_logits_of m query val = Inr (logits, v_proj)"
    and a: "apply_mask dt logits padding_mask causal_mask = Inr masked"
    and sm: "shape masked = [b, nat (mha_num_heads m), lq, lk]"
  shows "MultiHeadAttention_forward m dt query val padding_mask causal_mask
           = Inr (linear (w_out m)
                    (merge_heads (matmul [b, nat (mha_num_heads m)] (softmax_last masked) v_proj)),
                  softmax_last masked)"
    and "shape (merge_heads (matmul [b, nat (mha_num_heads m)] (softmax_last masked) v_proj))
           = [b, lq, d]"
proof -
  let ?v = "case val of None \<Rightarrow> query | Some v \<Rightarrow> v"
  have vp: "v_proj = split_heads (nat (mha_num_heads m)) (nat (mha_d_head m)) (linear (w_v m) ?v)"
    using l attention_logits_of_Inr[OF inv q v] by simp
  have li: "Linear_inv d d (w_v m)" "Linear_inv d d (w_out m)"
    using inv by (auto simp: MultiHeadAttention_inv_def)
  have pos: "0 < mha_num_heads m" "0 < mha_d_head m" "mha_num_heads m * mha_d_head m = int d"
    using inv by (auto simp: MultiHeadAttention_inv_def)
  have hd: "nat (mha_num_heads m) * nat (mha_d_head m) = d"
    using pos by (metis nat_int nat_mult_distrib less_imp_le)
  have sv: "shape ?v = [b, lk] @ [d]" using v by simp
  have s3: "shape (linear (w_v m) ?v) = [b, lk, d]" using shape_linear_inv[OF li(1) sv] by simp
  have svp: "shape v_proj = [b, nat (mha_num_heads m), lk, nat (mha_d_head m)]"
    by (simp add: vp s3 del: shape_linear)
  have mm: "torch_matmul (softmax_last masked) v_proj
              = Inr (matmul [b, nat (mha_num_heads m)] (softmax_last masked) v_proj)"
    by (rule torch_matmul_Inr) (simp_all add: sm svp)
  have so: "shape (merge_heads (matmul [b, nat (mha_num_heads m)] (softmax_last masked) v_proj))
              = [b, lq] @ [d]"
    by (simp add: sm svp hd)
  show "MultiHeadAttention_forward m dt query val padding_mask causal_mask
           = Inr (linear (w_out m)
                    (merge_heads (matmul [b, nat (mha_num_heads m)] (softmax_last masked) v_proj)),
                  softmax_last masked)"
    unfolding MultiHeadAttention_forward_def
    by (simp add: l a mm rearrange_merge_heads_def sm svp Linear_forward_Inr[OF li(2) so]
        del: shape_linear shape_merge_heads)
  show "shape (merge_heads (matmul [b, nat (mha_num_heads m)] (softmax_last masked) v_proj))
           = [b, lq, d]"
    using so by simp
qed

lemma MultiHeadAttention_init_w_out:
  assumes "MultiHeadAttention_init num_heads d_model rnd = Inr m" "0 < d_model"
  shows "w_out m = \<lparr>in_features = nat d_model, out_features = nat d_model,
                 weight = \<lparr>shape = [nat d_model, nat d_model], el = rnd ''xavier.w_out''\<rparr>,
                 bias = full [nat d_model] 0\<rparr>"
proof -
  have c: "num_heads \<noteq> 0" "d_model mod num_heads = 0"
    using assms(1) by (auto simp: MultiHeadAttention_init_def split: if_splits)
  note eq = MultiHeadAttention_init_eq[OF assms(2) c, of rnd]
  have "Inr m = MultiHeadAttention_init num_heads d_model rnd" using assms(1) by simp
  then have m: "m = projr (MultiHeadAttention_init num_heads d_model rnd)"
    by (metis sum.sel(2))
  show ?thesis unfolding m eq by simp
qed

lemma linear_zero:
  assumes "weight m = \<lparr>shape = [n, k], el = (\<lambda>idx. 0)\<rparr>" "bias m = full [n] 0"
  shows "linear m x = \<lparr>shape = butlast (shape x) @ [n], el = (\<lambda>idx. 0)\<rparr>"
  by (simp add: linear_def assms)

lemma mha_forward_explicit:
  assumes inv: "MultiHeadAttention_inv d m"
    and q: "shape query = [b, lq, d]"
    and v: "shape (case val of None \<Rightarrow> query | Some v \<Rightarrow> v) = [b, lk, d]"
    and p: "case padding_mask of None \<Rightarrow> True | Some pm \<Rightarrow> shape pm = [b, lk]"
    and c: "case causal_mask of None \<Rightarrow> True | Some cm \<Rightarrow> shape cm = [lq, lk]"
  shows "\<exists>logits v_proj masked.
     attention_logits_of m query val = Inr (logits, v_proj) \<and>
     MultiHeadAttention_forward m dt query val padding_mask causal_mask
       = Inr (linear (w_out m)
                (merge_heads (matmul [b, nat (mha_num_heads m)] (softmax_last masked) v_proj)),
              softmax_last masked) \<and>
     shape (merge_heads (matmul [b, nat (mha_num_heads m)] (softmax_last masked) v_proj))
       = [b, lq, d] \<and>
     shape masked = [b, nat (mha_num_heads m), lq, lk] \<and>
     (\<forall>bi<b. \<forall>h<nat (mha_num_heads m). \<forall>i<lq. \<forall>j<lk.
        el logits [bi, h, i, j] =
          (\<Sum>c<nat (mha_d_head m).
             el (split_heads (nat (mha_num_heads m)) (nat (mha_d_head m))
                   (linear (w_q m) query)) [bi, h, i, c]
           * el (split_heads (nat (mha_num_heads m)) (nat (mha_d_head m))
                   (linear (w_k m) (case val of None \<Rightarrow> query | Some v \<Rightarrow> v))) [bi, h, j, c])
          / sqrt (real (nat (mha_d_head m))) \<and>
        el masked [bi, h, i, j] =
          (if (case padding_mask of None \<Rightarrow> False | Some pm \<Rightarrow> el pm [bi, j] = 0) \<or>
              (case causal_mask of None \<Rightarrow> False | Some cm \<Rightarrow> el cm [i, j] = 0)
           then large_neg_value dt else el logits [bi, h, i, j]))"
proof -
  from mha_forward_structure[OF inv q v p c, of dt] obtain logits v_proj masked where
    lg: "attention_logits_of m query val = Inr (logits, v_proj)"
    and am: "apply_mask dt logits padding_mask causal_mask = Inr masked"
    and sm: "shape masked = [b, nat (mha_num_heads m), lq, lk]"
    and e: "\<forall>bi<b. \<forall>h<nat (mha_num_heads m). \<forall>i<lq. \<forall>j<lk.
        el logits [bi, h, i, j] =
          (\<Sum>c<nat (mha_d_head m).
             el (split_heads (nat (mha_num_heads m)) (nat (mha_d_head m))
                   (linear (w_q m) query)) [bi, h, i, c]
           * el (split_heads (nat (mha_num_heads m)) (nat (mha_d_head m))
                   (linear (w_k m) (case val of None \<Rightarrow> query | Some v \<Rightarrow> v))) [bi, h, j, c])
          / sqrt (real (nat (mha_d_head m))) \<and>
        el masked [bi, h, i, j] =
          (if (case padding_mask of None \<Rightarrow> False | Some pm \<Rightarrow> el pm [bi, j] = 0) \<or>
              (case causal_mask of None \<Rightarrow> False | Some cm \<Rightarrow> el cm [i, j] = 0)
           then large_neg_value dt else el logits [bi, h, i, j])"
    by (elim exE conjE) (rule that; assumption)
  note val = mha_forward_value[OF inv q v lg am sm]
  show ?thesis
    using lg val sm e by (intro exI[of _ logits] exI[of _ v_proj] exI[of _ masked]) simp
qed

lemma Encoder_init_one_block:
  assumes "Encoder_init 1 num_heads d_model dropout seq_len causal rnd = Inr enc"
  shows "\<exists>blk. encoders enc = [blk] \<and>
     EncoderBlock_init d_model num_heads (2 * d_model) dropout (rnd 0) = Inr blk"
proof -
  from Encoder_init_blocks[OF assms] obtain blk where
    b: "EncoderBlock_init d_model num_heads (2 * d_model) dropout (rnd 0) = Inr blk"
      "[blk] = encoders enc"
    by (auto simp: bindE_eq_Inr)
  show ?thesis using b(1) b(2)[symmetric] by blast
qed

lemma zero_out_projection_agree:
  assumes "MultiHeadAttention_inv d m1" "MultiHeadAttention_inv d m2"
    and "mha_num_heads m1 = mha_num_heads m2"
    and "weight (w_out m1) = \<lparr>shape = [d, d], el = (\<lambda>idx. 0)\<rparr>" "bias (w_out m1) = full [d] 0"
    and "weight (w_out m2) = \<lparr>shape = [d, d], el = (\<lambda>idx. 0)\<rparr>" "bias (w_out m2) = full [d] 0"
    and "shape y = [b, l, d]"
    and "case padding_mask of None \<Rightarrow> True | Some pm \<Rightarrow> shape pm = [b, l]"
    and "case cmask of None \<Rightarrow> True | Some cm \<Rightarrow> shape cm = [l, l]"
  shows "map_sum id fst (MultiHeadAttention_forward m1 dt y None padding_mask cmask) =
         map_sum id fst (MultiHeadAttention_forward m2 dt y None padding_mask cmask)"
proof -
  have v: "shape (case None of None \<Rightarrow> y | Some v \<Rightarrow> v) = [b, l, d]" using assms(8) by simp
  from mha_forward_explicit[OF assms(1,8) v assms(9,10), of dt] obtain k1 v1 where
    f1: "MultiHeadAttention_forward m1 dt y None padding_mask cmask
       = Inr (linear (w_out m1) (merge_heads (matmul [b, nat (mha_num_heads m1)] k1 v1)), k1)"
    and s1: "shape (merge_heads (matmul [b, nat (mha_num_heads m1)] k1 v1)) = [b, l, d]"
    by blast
  from mha_forward_explicit[OF assms(2,8) v assms(9,10), of dt] obtain k2 v2 where
    f2: "MultiHeadAttention_forward m2 dt y None padding_mask cmask
       = Inr (linear (w_out m2) (merge_heads (matmul [b, nat (mha_num_heads m2)] k2 v2)), k2)"
    and s2: "shape (merge_heads (matmul [b, nat (mha_num_heads m2)] k2 v2)) = [b, l, d]"
    by blast
  show ?thesis
    unfolding f1 f2 linear_zero[OF assms(4,5)] linear_zero[OF assms(6,7)] s1 s2 by simp
qed

lemma block_attention_replaced:
  assumes "map_sum id fst (MultiHeadAttention_forward (multi_head_attention e1) dt x None msk cmask) =
           map_sum id fst (MultiHeadAttention_forward m2 dt x None msk cmask)"
  shows "EncoderBlock_forward e1 training draws dt x cmask msk
       = EncoderBlock_forward (e1\<lparr>multi_head_attention := m2\<rparr>) training draws dt x cmask msk"
proof (cases "MultiHeadAttention_forward (multi_head_attention e1) dt x None msk cmask")
  case (Inl e)
  then have "MultiHeadAttention_forward m2 dt x None msk cmask = Inl e"
    using assms by (cases "MultiHeadAttention_forward m2 dt x None msk cmask") auto
  then show ?thesis using Inl by (simp add: EncoderBlock_forward_def)
next
  case (Inr r)
  then obtain r' where r': "MultiHeadAttention_forward m2 dt x None msk cmask = Inr r'"
    "fst r' = fst r"
    using assms by (cases "MultiHeadAttention_forward m2 dt x None msk cmask") auto
  then show ?thesis using Inr
    by (cases r; cases r') (simp add: EncoderBlock_forward_def)
qed

lemma Encoder_loop_attention_replaced:
  assumes "causal_mask_tensor enc1 = Some cm" "causal_mask_tensor enc2 = Some cm"
    and "shape cm = [l, l]"
    and "case msk of None \<Rightarrow> True | Some pm \<Rightarrow> shape pm = [b, l]"
    and "list_all2
           (\<lambda>e1 e2. EncoderBlock_inv d d_ff e1 \<and>
              e2 = e1\<lparr>multi_head_attention := multi_head_attention e2\<rparr> \<and>
              (\<forall>y. shape y = [b, l, d] \<longrightarrow>
                 map_sum id fst (MultiHeadAttention_forward (multi_head_attention e1) dt y None
                                   msk (Some cm)) =
                 map_sum id fst (MultiHeadAttention_forward (multi_head_attention e2) dt y None
                                   msk (Some cm))))
           es1 es2"
    and "shape x = [b, l, d]"
  shows "Encoder_loop enc1 es1 training draws k dt msk x
       = Encoder_loop enc2 es2 training draws k dt msk x"
  using assms(5,6)
proof (induction es1 es2 arbitrary: x k rule: list_all2_induct)
  case Nil
  then show ?case by simp
next
  case (Cons e1 es1 e2 es2)
  have inv: "EncoderBlock_inv d d_ff e1"
    and e2: "e2 = e1\<lparr>multi_head_attention := multi_head_attention e2\<rparr>"
    and ag: "map_sum id fst (MultiHeadAttention_forward (multi_head_attention e1) dt x None
                              msk (Some cm)) =
             map_sum id fst (MultiHeadAttention_forward (multi_head_attention e2) dt x None
                              msk (Some cm))"
    using Cons.hyps(1) Cons.prems by auto
  have c: "case Some cm of None \<Rightarrow> True | Some cm \<Rightarrow> shape cm = [l, l]"
    using assms(3) by simp
  have eq: "EncoderBlock_forward e1 training (draws k) dt x (Some cm) msk
          = EncoderBlock_forward e2 training (draws k) dt x (Some cm) msk"
    using block_attention_replaced[OF ag, of training "draws k"] e2 by simp
  from block_forward_shape[OF inv Cons.prems assms(4) c, of training "draws k" dt]
  obtain y where y: "EncoderBlock_forward e1 training (draws k) dt x (Some cm) msk = Inr y"
    "shape y = [b, l, d]"
    using Cons.prems by auto
  show ?case
    using Cons.IH[OF y(2), of "Suc k"] y(1) eq by (simp add: assms(1,2))
qed

text \<open>
  Claim C10.  \<^verbatim>\<open>EncoderBlock.forward\<close> uses the output of its attention module and drops
  the attention weights, and \<^verbatim>\<open>Encoder.forward\<close> returns the hidden state of the last
  block only.  Hence nothing that \<^verbatim>\<open>Encoder.forward\<close> returns depends on the weights:
  replacing the attention module of every block by one that returns the same output on
  every hidden state of the input's shape (whatever attention weights it returns with
  it) does not change the result of \<^verbatim>\<open>Encoder.forward\<close>.
\<close>

theorem encoder_attention_weights_discarded:
  assumes "causal_mask_tensor enc1 = Some cm" "causal_mask_tensor enc2 = Some cm"
    and "shape cm = [l, l]"
    and "case msk of None \<Rightarrow> True | Some pm \<Rightarrow> shape pm = [b, l]"
    and "list_all2
           (\<lambda>e1 e2. EncoderBlock_inv d d_ff e1 \<and>
              e2 = e1\<lparr>multi_head_attention := multi_head_attention e2\<rparr> \<and>
              (\<forall>y. shape y = [b, l, d] \<longrightarrow>
                 map_sum id fst (MultiHeadAttention_forward (multi_head_attention e1) dt y None
                                   msk (Some cm)) =
                 map_sum id fst (MultiHeadAttention_forward (multi_head_attention e2) dt y None
                                   msk (Some cm))))
           (encoders enc1) (encoders enc2)"
    and "shape x = [b, l, d]"
  shows "Encoder_forward enc1 training draws dt x msk = Encoder_forward enc2 training draws dt x msk"
  unfolding Encoder_forward_def by (rule Encoder_loop_attention_replaced[OF assms])

lemma exp_ratio_ne_half': "exp (2::real) / (exp 2 + exp 4) \<noteq> 1 / 2"
proof
  assume "exp (2::real) / (exp 2 + exp 4) = 1 / 2"
  moreover have "0 < exp (2::real) + exp 4" by (simp add: add_pos_pos)
  ultimately have "exp (2::real) = exp 4" by (simp add: field_simps)
  then show False by simp
qed

theorem encoder_attention_weights_discarded_witness:
  "\<exists>enc blk cm m2 o1 w1 o2 w2.
     Encoder_init 1 1 1 0 2 True (\<lambda>l name idx. 0) = Inr enc \<and>
     encoders enc = [blk] \<and> causal_mask_tensor enc = Some cm \<and>
     MultiHeadAttention_init 1 1
       (\<lambda>name idx. if name = ''xavier.w_q'' \<or> name = ''xavier.w_k'' then 1 else 0) = Inr m2 \<and>
     MultiHeadAttention_forward (multi_head_attention blk) Float32
       \<lparr>shape = [1, 2, 1], el = (\<lambda>idx. if idx = [0, 1, 0] then 2 else 1)\<rparr>
       None (None :: int tensor option) (Some cm) = Inr (o1, w1) \<and>
     MultiHeadAttention_forward m2 Float32
       \<lparr>shape = [1, 2, 1], el = (\<lambda>idx. if idx = [0, 1, 0] then 2 else 1)\<rparr>
       None (None :: int tensor option) (Some cm) = Inr (o2, w2) \<and>
     el w1 [0, 0, 1, 0] \<noteq> el w2 [0, 0, 1, 0] \<and>
     Encoder_forward enc False
       (\<lambda>l. \<lparr>draw1 = (\<lambda>idx. True), draw_pff = (\<lambda>k idx. True), draw2 = (\<lambda>idx. True)\<rparr>) Float32
       \<lparr>shape = [1, 2, 1], el = (\<lambda>idx. if idx = [0, 1, 0] then 2 else 1)\<rparr>
       (None :: int tensor option)
     = Encoder_forward (enc\<lparr>encoders := [blk\<lparr>multi_head_attention := m2\<rparr>]\<rparr>) False
       (\<lambda>l. \<lparr>draw1 = (\<lambda>idx. True), draw_pff = (\<lambda>k idx. True), draw2 = (\<lambda>idx. True)\<rparr>) Float32
       \<lparr>shape = [1, 2, 1], el = (\<lambda>idx. if idx = [0, 1, 0] then 2 else 1)\<rparr>
       (None :: int tensor option)"
proof -
  let ?rnd1 = "\<lambda>(l::nat) (name::string) (idx::nat list). 0::real"
  let ?rnd2 = "\<lambda>(name::string) (idx::nat list).
                 if name = ''xavier.w_q'' \<or> name = ''xavier.w_k'' then 1 else 0::real"
  let ?x = "\<lparr>shape = [1, 2, 1], el = (\<lambda>idx. if idx = [0, 1, 0] then 2 else 1::real)\<rparr>"
  let ?dr = "\<lambda>l::nat. \<lparr>draw1 = (\<lambda>idx. True), draw_pff = (\<lambda>k idx. True), draw2 = (\<lambda>idx. True)\<rparr>"
  obtain enc where enc: "Encoder_init 1 1 1 0 2 True ?rnd1 = Inr enc"
    using Encoder_init_Inr_example by blast
  from Encoder_init_one_block[OF enc] obtain blk where
    blk: "encoders enc = [blk]" "EncoderBlock_init 1 1 (2 * 1) 0 (?rnd1 0) = Inr blk"
    by blast
  let ?m1 = "multi_head_attention blk"
  have m1: "MultiHeadAttention_init 1 1 (?rnd1 0) = Inr ?m1"
    by (rule EncoderBlock_init_mha[OF blk(2)])
  obtain m2 where m2: "MultiHeadAttention_init 1 1 ?rnd2 = Inr m2"
    using MultiHeadAttention_init_Inr[of 1 1] by auto
  from Encoder_init_causal[OF enc] obtain cm where
    cm: "causal_mask_tensor enc = Some cm" "shape cm = [nat 2, nat 2]"
      "\<And>i j. el cm [i, j] = (if j \<le> i then 1 else 0)"
    by blast
  have binv: "EncoderBlock_inv 1 2 blk" using EncoderBlock_init_inv[OF blk(2)] by simp
  have inv: "MultiHeadAttention_inv 1 ?m1" "MultiHeadAttention_inv 1 m2"
    using MultiHeadAttention_init_inv[OF m1] MultiHeadAttention_init_inv[OF m2] by simp_all
  have nh: "mha_num_heads ?m1 = 1" "mha_d_head ?m1 = 1" "mha_num_heads m2 = 1" "mha_d_head m2 = 1"
    using MultiHeadAttention_init_heads[OF m1] MultiHeadAttention_init_heads[OF m2] by simp_all
  have wo: "weight (w_out ?m1) = \<lparr>shape = [1, 1], el = (\<lambda>idx. 0)\<rparr>" "bias (w_out ?m1) = full [1] 0"
      "weight (w_out m2) = \<lparr>shape = [1, 1], el = (\<lambda>idx. 0)\<rparr>" "bias (w_out m2) = full [1] 0"
    using MultiHeadAttention_init_w_out[OF m1] MultiHeadAttention_init_w_out[OF m2] by simp_all
  have wq: "w_q ?m1 = \<lparr>in_features = 1, out_features = 1,
                 weight = \<lparr>shape = [1, 1], el = (\<lambda>idx. 0)\<rparr>, bias = full [1] 0\<rparr>"
      "w_q m2 = \<lparr>in_features = 1, out_features = 1,
                 weight = \<lparr>shape = [1, 1], el = (\<lambda>idx. 1)\<rparr>, bias = full [1] 0\<rparr>"
      "w_k m2 = \<lparr>in_features = 1, out_features = 1,
                 weight = \<lparr>shape = [1, 1], el = (\<lambda>idx. 1)\<rparr>, bias = full [1] 0\<rparr>"
    using MultiHeadAttention_init_weights[OF m1] MultiHeadAttention_init_weights[OF m2]
    by simp_all
  have x: "shape ?x = [1, 2, 1]" by simp
  have v: "shape (case None of None \<Rightarrow> ?x | Some v \<Rightarrow> v) = [1, 2, 1]" by simp
  have p: "case (None :: int tensor option) of None \<Rightarrow> True | Some pm \<Rightarrow> shape pm = [1, 2]"
    by simp
  have c: "case Some cm of None \<Rightarrow> True | Some cm \<Rightarrow> shape cm = [2, 2]"
    using cm(2) by simp
  from mha_forward_explicit[OF inv(1) x v p c, of Float32] obtain l1 v1 k1 where
    f1: "MultiHeadAttention_forward ?m1 Float32 ?x None (None :: int tensor option) (Some cm)
       = Inr (linear (w_out ?m1)
                (merge_heads (matmul [1, nat (mha_num_heads ?m1)] (softmax_last k1) v1)),
              softmax_last k1)"
    and sk1: "shape k1 = [1, nat (mha_num_heads ?m1), 2, 2]"
    and e1: "\<forall>bi<1. \<forall>h<nat (mha_num_heads ?m1). \<forall>i<2. \<forall>j<2.
        el l1 [bi, h, i, j] =
          (\<Sum>c<nat (mha_d_head ?m1).
             el (split_heads (nat (mha_num_heads ?m1)) (nat (mha_d_head ?m1))
                   (linear (w_q ?m1) ?x)) [bi, h, i, c]
           * el (split_heads (nat (mha_num_heads ?m1)) (nat (mha_d_head ?m1))
                   (linear (w_k ?m1) (case None of None \<Rightarrow> ?x | Some v \<Rightarrow> v))) [bi, h, j, c])
          / sqrt (real (nat (mha_d_head ?m1))) \<and>
        el k1 [bi, h, i, j] =
          (if (case (None :: int tensor option) of None \<Rightarrow> False
               | Some pm \<Rightarrow> el pm [bi, j] = 0) \<or>
              (case Some cm of None \<Rightarrow> False | Some cm \<Rightarrow> el cm [i, j] = 0)
           then large_neg_value Float32 else el l1 [bi, h, i, j])"
    and t1: "attention_logits_of ?m1 ?x None = Inr (l1, v1)"
    by (elim exE conjE) (rule that; assumption)
  from mha_forward_explicit[OF inv(2) x v p c, of Float32] obtain l2 v2 k2 where
    f2: "MultiHeadAttention_forward m2 Float32 ?x None (None :: int tensor option) (Some cm)
       = Inr (linear (w_out m2)
                (merge_heads (matmul [1, nat (mha_num_heads m2)] (softmax_last k2) v2)),
              softmax_last k2)"
    and sk2: "shape k2 = [1, nat (mha_num_heads m2), 2, 2]"
    and e2: "\<forall>bi<1. \<forall>h<nat (mha_num_heads m2). \<forall>i<2. \<forall>j<2.
        el l2 [bi, h, i, j] =
          (\<Sum>c<nat (mha_d_head m2).
             el (split_heads (nat (mha_num_heads m2)) (nat (mha_d_head m2))
                   (linear (w_q m2) ?x)) [bi, h, i, c]
           * el (split_heads (nat (mha_num_heads m2)) (nat (mha_d_head m2))
                   (linear (w_k m2) (case None of None \<Rightarrow> ?x | Some v \<Rightarrow> v))) [bi, h, j, c])
          / sqrt (real (nat (mha_d_head m2))) \<and>
        el k2 [bi, h, i, j] =
          (if (case (None :: int tensor option) of None \<Rightarrow> False
               | Some pm \<Rightarrow> el pm [bi, j] = 0) \<or>
              (case Some cm of None \<Rightarrow> False | Some cm \<Rightarrow> el cm [i, j] = 0)
           then large_neg_value Float32 else el l2 [bi, h, i, j])"
    and t2: "attention_logits_of m2 ?x None = Inr (l2, v2)"
    by (elim exE conjE) (rule that; assumption)
  have a1: "el k1 [0, 0, Suc 0, 0] = 0" "el k1 [0, 0, Suc 0, Suc 0] = 0"
    using e1[rule_format, of 0 0 1 0] e1[rule_format, of 0 0 1 1]
    by (simp_all add: nh wq el_linear cm(3))
  have a2: "el k2 [0, 0, Suc 0, 0] = 2" "el k2 [0, 0, Suc 0, Suc 0] = 4"
    using e2[rule_format, of 0 0 1 0] e2[rule_format, of 0 0 1 1]
    by (simp_all add: nh wq el_linear cm(3))
  have w1: "el (softmax_last k1) [0, 0, 1, 0] = 1 / 2"
    by (simp add: el_softmax_last sk1 nh a1 numeral_2_eq_2)
  have w2: "el (softmax_last k2) [0, 0, 1, 0] = exp 2 / (exp 2 + exp 4)"
    by (simp add: el_softmax_last sk2 nh a2 numeral_2_eq_2)
  have wne: "el (softmax_last k1) [0, 0, 1, 0] \<noteq> el (softmax_last k2) [0, 0, 1, 0]"
    unfolding w1 w2 using exp_ratio_ne_half' by simp
  have agree: "map_sum id fst (MultiHeadAttention_forward ?m1 Float32 y None
                  (None :: int tensor option) (Some cm)) =
               map_sum id fst (MultiHeadAttention_forward m2 Float32 y None
                  (None :: int tensor option) (Some cm))"
    if "shape y = [1, 2, 1]" for y
    by (rule zero_out_projection_agree[OF inv _ _ _ _ _ that p c]) (simp_all add: nh wo)
  have rel: "list_all2
           (\<lambda>e1 e2. EncoderBlock_inv 1 2 e1 \<and>
              e2 = e1\<lparr>multi_head_attention := multi_head_attention e2\<rparr> \<and>
              (\<forall>y. shape y = [1, 2, 1] \<longrightarrow>
                 map_sum id fst (MultiHeadAttention_forward (multi_head_attention e1) Float32 y None
                                   (None :: int tensor option) (Some cm)) =
                 map_sum id fst (MultiHeadAttention_forward (multi_head_attention e2) Float32 y None
                                   (None :: int tensor option) (Some cm))))
           (encoders enc) (encoders (enc\<lparr>encoders := [blk\<lparr>multi_head_attention := m2\<rparr>]\<rparr>))"
    using binv agree by (simp add: blk(1))
  have cm2: "causal_mask_tensor (enc\<lparr>encoders := [blk\<lparr>multi_head_attention := m2\<rparr>]\<rparr>) = Some cm"
    using cm(1) by simp
  have scm: "shape cm = [2, 2]" using cm(2) by simp
  note main = encoder_attention_weights_discarded[OF cm(1) cm2 scm p rel x, of False ?dr]
  show ?thesis
    using enc blk(1) cm(1) m2 f1 f2 wne main
    by (intro exI[of _ enc] exI[of _ blk] exI[of _ cm] exI[of _ m2]
        exI[of _ "linear (w_out ?m1)
                (merge_heads (matmul [1, nat (mha_num_heads ?m1)] (softmax_last k1) v1))"]
        exI[of _ "softmax_last k1"]
        exI[of _ "linear (w_out m2)
                (merge_heads (matmul [1, nat (mha_num_heads m2)] (softmax_last k2) v2))"]
        exI[of _ "softmax_last k2"]) simp
qed

end
